theory Spec2Isabelle
  imports Main "HOL-Library.Word" "HOL-Library.Code_Target_Nat"
begin

unbundle bit_operations_syntax

section \<open>Python strings, bytes and exceptions\<close>

text \<open>
  A Python \<open>str\<close> is a sequence of Unicode code points, a \<open>bytes\<close> object a sequence of
  numbers below 256. Both are lists of naturals here. String literals of the source are
  written as Isabelle strings and turned into code points by \<open>lit\<close>.
\<close>

type_synonym pystr = "nat list"
type_synonym pybytes = "nat list"

datatype error = UnicodeEncodeError | KeyError | ZeroDivisionError | ValueError

definition lit :: "string \<Rightarrow> pystr" where
  "lit s = map of_char s"

text \<open>\<open>str.encode()\<close>: strict UTF-8. A surrogate code point (U+D800..U+DFFF) raises.\<close>

definition is_surrogate :: "nat \<Rightarrow> bool" where
  "is_surrogate c = (0xD800 \<le> c \<and> c \<le> 0xDFFF)"

definition utf8_char :: "nat \<Rightarrow> error + pybytes" where
  "utf8_char c =
     (if c < 0x80 then Inr [c]
      else if c < 0x800 then Inr [0xC0 + c div 64, 0x80 + c mod 64]
      else if is_surrogate c then Inl UnicodeEncodeError
      else if c < 0x10000 then
        Inr [0xE0 + c div 4096, 0x80 + (c div 64) mod 64, 0x80 + c mod 64]
      else
        Inr [0xF0 + c div 262144, 0x80 + (c div 4096) mod 64,
             0x80 + (c div 64) mod 64, 0x80 + c mod 64])"

primrec encode :: "pystr \<Rightarrow> error + pybytes" where
  "encode [] = Inr []"
| "encode (c # cs) =
     (case utf8_char c of
        Inl e \<Rightarrow> Inl e
      | Inr bs \<Rightarrow> (case encode cs of Inl e \<Rightarrow> Inl e | Inr rest \<Rightarrow> Inr (bs @ rest)))"

definition encodable :: "pystr \<Rightarrow> bool" where
  "encodable s = list_all (\<lambda>c. \<not> is_surrogate c) s"

text \<open>
  Case mapping. On a string of ASCII characters \<open>str.lower()\<close> and \<open>str.title()\<close> are the
  ASCII mappings below. On any other string they are given by the Unicode character
  database of the interpreter, which is a parameter of the model.
\<close>

record unicode_db =
  db_lower :: "pystr \<Rightarrow> pystr"
  db_title :: "pystr \<Rightarrow> pystr"

definition is_ascii :: "pystr \<Rightarrow> bool" where
  "is_ascii s = list_all (\<lambda>c. c < 128) s"

definition ascii_lower :: "nat \<Rightarrow> nat" where
  "ascii_lower c = (if 65 \<le> c \<and> c \<le> 90 then c + 32 else c)"

definition ascii_upper :: "nat \<Rightarrow> nat" where
  "ascii_upper c = (if 97 \<le> c \<and> c \<le> 122 then c - 32 else c)"

definition ascii_is_cased :: "nat \<Rightarrow> bool" where
  "ascii_is_cased c = ((65 \<le> c \<and> c \<le> 90) \<or> (97 \<le> c \<and> c \<le> 122))"

primrec ascii_title :: "bool \<Rightarrow> pystr \<Rightarrow> pystr" where
  "ascii_title previous_is_cased [] = []"
| "ascii_title previous_is_cased (c # cs) =
     (if previous_is_cased then ascii_lower c else ascii_upper c)
       # ascii_title (ascii_is_cased c) cs"

definition py_lower :: "unicode_db \<Rightarrow> pystr \<Rightarrow> pystr" where
  "py_lower db s = (if is_ascii s then map ascii_lower s else db_lower db s)"

definition py_title :: "unicode_db \<Rightarrow> pystr \<Rightarrow> pystr" where
  "py_title db s = (if is_ascii s then ascii_title False s else db_title db s)"

text \<open>\<open>s.replace(a, b)\<close> for one-character \<open>a\<close> and \<open>b\<close>.\<close>

definition py_replace :: "char \<Rightarrow> char \<Rightarrow> pystr \<Rightarrow> pystr" where
  "py_replace a b s = map (\<lambda>c. if c = of_char a then of_char b else c) s"

text \<open>The decimal rendering of a non-negative integer in an f-string.\<close>

fun decimal :: "nat \<Rightarrow> pystr" where
  "decimal n = (if n < 10 then [48 + n] else decimal (n div 10) @ [48 + n mod 10])"

declare decimal.simps [simp del]

section \<open>urllib.parse.quote\<close>

definition always_safe :: "nat \<Rightarrow> bool" where
  "always_safe b =
     ((65 \<le> b \<and> b \<le> 90) \<or> (97 \<le> b \<and> b \<le> 122) \<or> (48 \<le> b \<and> b \<le> 57)
      \<or> b = 95 \<or> b = 46 \<or> b = 45 \<or> b = 126)"

definition hex_upper :: "nat \<Rightarrow> nat" where
  "hex_upper d = (if d < 10 then 48 + d else 55 + d)"

text \<open>The default \<open>safe\<close> argument is \<open>'/'\<close> (byte 47); any other byte becomes \<open>%XX\<close>.\<close>

definition quote_byte :: "nat \<Rightarrow> pystr" where
  "quote_byte b =
     (if always_safe b \<or> b = 47 then [b] else [37, hex_upper (b div 16), hex_upper (b mod 16)])"

definition quote :: "pystr \<Rightarrow> error + pystr" where
  "quote s =
     (if s = [] then Inr []
      else case encode s of Inl e \<Rightarrow> Inl e | Inr bs \<Rightarrow> Inr (concat (map quote_byte bs)))"

section \<open>hashlib.md5\<close>

text \<open>The digest of RFC 1321, on 32-bit words, little-endian.\<close>

definition md5_K :: "32 word list" where
  "md5_K =
    [0xd76aa478, 0xe8c7b756, 0x242070db, 0xc1bdceee, 0xf57c0faf, 0x4787c62a, 0xa8304613,
     0xfd469501, 0x698098d8, 0x8b44f7af, 0xffff5bb1, 0x895cd7be, 0x6b901122, 0xfd987193,
     0xa679438e, 0x49b40821, 0xf61e2562, 0xc040b340, 0x265e5a51, 0xe9b6c7aa, 0xd62f105d,
     0x02441453, 0xd8a1e681, 0xe7d3fbc8, 0x21e1cde6, 0xc33707d6, 0xf4d50d87, 0x455a14ed,
     0xa9e3e905, 0xfcefa3f8, 0x676f02d9, 0x8d2a4c8a, 0xfffa3942, 0x8771f681, 0x6d9d6122,
     0xfde5380c, 0xa4beea44, 0x4bdecfa9, 0xf6bb4b60, 0xbebfbc70, 0x289b7ec6, 0xeaa127fa,
     0xd4ef3085, 0x04881d05, 0xd9d4d039, 0xe6db99e5, 0x1fa27cf8, 0xc4ac5665, 0xf4292244,
     0x432aff97, 0xab9423a7, 0xfc93a039, 0x655b59c3, 0x8f0ccc92, 0xffeff47d, 0x85845dd1,
     0x6fa87e4f, 0xfe2ce6e0, 0xa3014314, 0x4e0811a1, 0xf7537e82, 0xbd3af235, 0x2ad7d2bb,
     0xeb86d391]"

definition md5_s :: "nat list" where
  "md5_s =
    [7, 12, 17, 22, 7, 12, 17, 22, 7, 12, 17, 22, 7, 12, 17, 22,
     5, 9, 14, 20, 5, 9, 14, 20, 5, 9, 14, 20, 5, 9, 14, 20,
     4, 11, 16, 23, 4, 11, 16, 23, 4, 11, 16, 23, 4, 11, 16, 23,
     6, 10, 15, 21, 6, 10, 15, 21, 6, 10, 15, 21, 6, 10, 15, 21]"

definition le_bytes :: "nat \<Rightarrow> nat \<Rightarrow> pybytes" where
  "le_bytes k n = map (\<lambda>i. (n div 256 ^ i) mod 256) [0..<k]"

definition md5_pad :: "pybytes \<Rightarrow> pybytes" where
  "md5_pad m =
     m @ [0x80] @ replicate ((119 - length m mod 64) mod 64) 0
       @ le_bytes 8 ((8 * length m) mod 2 ^ 64)"

definition word_of_le :: "pybytes \<Rightarrow> 32 word" where
  "word_of_le bs = of_nat (foldr (\<lambda>b acc. b + 256 * acc) bs 0)"

definition block_words :: "pybytes \<Rightarrow> 32 word list" where
  "block_words blk = map (\<lambda>j. word_of_le (take 4 (drop (4 * j) blk))) [0..<16]"

text \<open>\<open>ROTATE_LEFT(x, c)\<close> of the RFC: \<open>(x << c) | (x >> (32 - c))\<close>.\<close>

definition rotl32 :: "nat \<Rightarrow> 32 word \<Rightarrow> 32 word" where
  "rotl32 c x = push_bit c x OR drop_bit (32 - c) x"

type_synonym md5_state = "32 word \<times> 32 word \<times> 32 word \<times> 32 word"

definition md5_step :: "32 word list \<Rightarrow> nat \<Rightarrow> md5_state \<Rightarrow> md5_state" where
  "md5_step M i st =
     (case st of (A, B, C, D) \<Rightarrow>
        let (F, g) =
              (if i < 16 then ((B AND C) OR (NOT B AND D), i)
               else if i < 32 then ((D AND B) OR (NOT D AND C), (5 * i + 1) mod 16)
               else if i < 48 then (B XOR C XOR D, (3 * i + 5) mod 16)
               else (C XOR (B OR NOT D), (7 * i) mod 16));
            F' = F + A + md5_K ! i + M ! g
        in (D, B + rotl32 (md5_s ! i) F', B, C))"

definition md5_block :: "md5_state \<Rightarrow> pybytes \<Rightarrow> md5_state" where
  "md5_block st blk =
     (case st of (a0, b0, c0, d0) \<Rightarrow>
        (case fold (md5_step (block_words blk)) [0..<64] st of
           (A, B, C, D) \<Rightarrow> (a0 + A, b0 + B, c0 + C, d0 + D)))"

fun md5_blocks :: "nat \<Rightarrow> md5_state \<Rightarrow> pybytes \<Rightarrow> md5_state" where
  "md5_blocks 0 st bs = st"
| "md5_blocks (Suc n) st bs = md5_blocks n (md5_block st (take 64 bs)) (drop 64 bs)"

definition md5 :: "pybytes \<Rightarrow> pybytes" where
  "md5 m =
     (let p = md5_pad m in
      case md5_blocks (length p div 64) (0x67452301, 0xefcdab89, 0x98badcfe, 0x10325476) p of
        (a, b, c, d) \<Rightarrow> concat (map (\<lambda>w. le_bytes 4 (unat w)) [a, b, c, d]))"

definition hex_lower :: "nat \<Rightarrow> nat" where
  "hex_lower d = (if d < 10 then 48 + d else 87 + d)"

definition hexdigest :: "pybytes \<Rightarrow> pystr" where
  "hexdigest digest = concat (map (\<lambda>b. [hex_lower (b div 16), hex_lower (b mod 16)]) digest)"

text \<open>
  \<open>int(s, 16)\<close> on a string of hexadecimal digits; the empty string raises. The signs,
  prefixes, underscores and blanks that \<open>int\<close> also accepts do not occur in a hexdigest
  and are not modelled.
\<close>

definition hex_digit_val :: "nat \<Rightarrow> nat option" where
  "hex_digit_val c =
     (if 48 \<le> c \<and> c \<le> 57 then Some (c - 48)
      else if 97 \<le> c \<and> c \<le> 102 then Some (c - 87)
      else if 65 \<le> c \<and> c \<le> 70 then Some (c - 55)
      else None)"

primrec int16_from :: "nat \<Rightarrow> pystr \<Rightarrow> error + nat" where
  "int16_from acc [] = Inr acc"
| "int16_from acc (c # cs) =
     (case hex_digit_val c of
        None \<Rightarrow> Inl ValueError
      | Some d \<Rightarrow> int16_from (16 * acc + d) cs)"

definition int16 :: "pystr \<Rightarrow> error + nat" where
  "int16 s = (if s = [] then Inl ValueError else int16_from 0 s)"

text \<open>The seed expression \<open>int(hashlib.md5(key.encode()).hexdigest()[:8], 16) % 10000\<close>.\<close>

definition derive_seed :: "pystr \<Rightarrow> error + nat" where
  "derive_seed key =
     (case encode key of
        Inl e \<Rightarrow> Inl e
      | Inr bs \<Rightarrow>
          (case int16 (take 8 (hexdigest (md5 bs))) of
             Inl e \<Rightarrow> Inl e
           | Inr v \<Rightarrow> Inr (v mod 10000)))"

section \<open>SeikoAssetManager\<close>

text \<open>The class tables, as association lists in the order of the dict literals.\<close>

definition SEIKO_WATCH_CATEGORIES :: "(pystr \<times> pystr list) list" where
  "SEIKO_WATCH_CATEGORIES =
    [(lit ''hero'', map lit
        [''seiko+watch+luxury'', ''luxury+timepiece'', ''premium+watch'',
         ''seiko+automatic'', ''watch+collection'', ''luxury+wristwatch'']),
     (lit ''products'', map lit
        [''seiko+watch+face'', ''watch+detail'', ''timepiece+close'',
         ''luxury+watch+band'', ''seiko+movement'', ''watch+craftsmanship'']),
     (lit ''lifestyle'', map lit
        [''businessman+watch'', ''luxury+lifestyle'', ''professional+timepiece'',
         ''watch+wrist'', ''elegant+watch'', ''premium+accessories'']),
     (lit ''collections'', map lit
        [''seiko+prospex'', ''seiko+presage'', ''seiko+astron'',
         ''watch+collection+display'', ''luxury+watch+showcase'', ''timepiece+gallery'']),
     (lit ''craftsmanship'', map lit
        [''watch+mechanism'', ''seiko+movement'', ''watchmaking+craft'',
         ''precision+engineering'', ''japanese+craftsmanship'', ''horological+art'']),
     (lit ''trust'', map lit
        [''luxury+service'', ''watch+warranty'', ''premium+support'',
         ''professional+consultation'', ''authorized+dealer'', ''watch+expertise''])]"

definition FALLBACK_CATEGORIES :: "(pystr \<times> pystr list) list" where
  "FALLBACK_CATEGORIES =
    [(lit ''hero'', map lit [''luxury'', ''premium'', ''elegant'', ''sophisticated'']),
     (lit ''products'', map lit [''product'', ''detail'', ''quality'', ''craftsmanship'']),
     (lit ''lifestyle'', map lit [''lifestyle'', ''professional'', ''business'', ''elegant'']),
     (lit ''collections'', map lit [''collection'', ''gallery'', ''showcase'', ''display'']),
     (lit ''craftsmanship'', map lit [''precision'', ''engineering'', ''craft'', ''art'']),
     (lit ''trust'', map lit [''service'', ''quality'', ''professional'', ''trust''])]"

definition base_unsplash_url :: pystr where
  "base_unsplash_url = lit ''https://source.unsplash.com''"

definition base_picsum_url :: pystr where
  "base_picsum_url = lit ''https://picsum.photos''"

text \<open>The dict every construction operation returns: five string fields.\<close>

record asset_record =
  primary :: pystr
  secondary :: pystr
  fallback :: pystr
  alt :: pystr
  title :: pystr

text \<open>A loop that appends one result per element and stops at the first exception.\<close>

primrec collect :: "('a \<Rightarrow> error + 'b) \<Rightarrow> 'a list \<Rightarrow> error + 'b list" where
  "collect f [] = Inr []"
| "collect f (x # xs) =
     (case f x of
        Inl e \<Rightarrow> Inl e
      | Inr y \<Rightarrow> (case collect f xs of Inl e \<Rightarrow> Inl e | Inr ys \<Rightarrow> Inr (y # ys)))"

text \<open>
  The body of the inner loop of \<open>get_seiko_assets\<close>. \<open>i % len(...)\<close> raises on an empty
  list and \<open>FALLBACK_CATEGORIES[section]\<close> on a missing key.
\<close>

definition section_image ::
  "unicode_db \<Rightarrow> pystr \<Rightarrow> pystr list \<Rightarrow> nat \<Rightarrow> error + asset_record" where
  "section_image db section keywords i =
     (if length keywords = 0 then Inl ZeroDivisionError
      else
        let keyword = keywords ! (i mod length keywords) in
        case map_of FALLBACK_CATEGORIES section of
          None \<Rightarrow> Inl KeyError
        | Some fallbacks \<Rightarrow>
            if length fallbacks = 0 then Inl ZeroDivisionError
            else
              let fallback_keyword = fallbacks ! (i mod length fallbacks) in
              case derive_seed (lit ''seiko_'' @ section @ lit ''_'' @ decimal i) of
                Inl e \<Rightarrow> Inl e
              | Inr seed \<Rightarrow>
                  (case quote keyword of
                     Inl e \<Rightarrow> Inl e
                   | Inr qk \<Rightarrow>
                       (case quote fallback_keyword of
                          Inl e \<Rightarrow> Inl e
                        | Inr qf \<Rightarrow>
                            Inr \<lparr>primary = base_unsplash_url @ lit ''/1200x800/?'' @ qk
                                     @ lit ''&sig='' @ decimal seed,
                                 secondary = base_unsplash_url @ lit ''/1200x800/?'' @ qf
                                     @ lit ''&sig='' @ decimal seed,
                                 fallback = base_picsum_url @ lit ''/1200/800?random=''
                                     @ decimal seed,
                                 alt = lit ''Professional Seiko ''
                                     @ py_replace CHR ''+'' CHR '' '' keyword
                                     @ lit '' imagery'',
                                 title = lit ''Seiko '' @ py_title db section @ lit '' - ''
                                     @ py_title db (py_replace CHR ''+'' CHR '' '' keyword)\<rparr>)))"

text \<open>\<open>range(min(section_count, len(keywords)))\<close>: empty when the bound is not positive.\<close>

definition section_range :: "int \<Rightarrow> pystr list \<Rightarrow> nat list" where
  "section_range section_count keywords =
     [0..<nat (min section_count (int (length keywords)))]"

definition get_seiko_assets ::
  "unicode_db \<Rightarrow> int \<Rightarrow> error + (pystr \<times> asset_record list) list" where
  "get_seiko_assets db section_count =
     collect (\<lambda>(section, keywords).
        case collect (section_image db section keywords)
               (section_range section_count keywords) of
          Inl e \<Rightarrow> Inl e
        | Inr section_images \<Rightarrow> Inr (section, section_images))
       SEIKO_WATCH_CATEGORIES"

definition product_search_terms :: "pystr \<Rightarrow> pystr \<Rightarrow> pystr list" where
  "product_search_terms clean_name image_type =
     (if image_type = lit ''main'' then
        [lit ''seiko+'' @ clean_name, clean_name @ lit ''+watch'', lit ''luxury+watch'']
      else if image_type = lit ''detail'' then
        [clean_name @ lit ''+detail'', lit ''watch+mechanism'', lit ''watch+face'']
      else if image_type = lit ''lifestyle'' then
        [clean_name @ lit ''+lifestyle'', lit ''watch+wrist'', lit ''luxury+lifestyle'']
      else [lit ''seiko+watch'', lit ''luxury+timepiece''])"

definition get_product_image ::
  "unicode_db \<Rightarrow> pystr \<Rightarrow> pystr \<Rightarrow> error + asset_record" where
  "get_product_image db product_name image_type =
     (let clean_name = py_replace CHR '' '' CHR ''+'' (py_lower db product_name) in
      case derive_seed (clean_name @ lit ''_'' @ image_type) of
        Inl e \<Rightarrow> Inl e
      | Inr seed \<Rightarrow>
          let search_terms = product_search_terms clean_name image_type in
          case quote (search_terms ! 0) of
            Inl e \<Rightarrow> Inl e
          | Inr q0 \<Rightarrow>
              (case quote (search_terms ! 1) of
                 Inl e \<Rightarrow> Inl e
               | Inr q1 \<Rightarrow>
                   Inr \<lparr>primary = base_unsplash_url @ lit ''/800x800/?'' @ q0
                            @ lit ''&sig='' @ decimal seed,
                        secondary = base_unsplash_url @ lit ''/800x800/?'' @ q1
                            @ lit ''&sig='' @ decimal seed,
                        fallback = base_picsum_url @ lit ''/800/800?random='' @ decimal seed,
                        alt = product_name @ lit '' - Professional watch photography'',
                        title = product_name\<rparr>))"

definition hero_search_terms :: "(pystr \<times> pystr) list" where
  "hero_search_terms =
    [(lit ''luxury'', lit ''seiko+luxury+watch+collection''),
     (lit ''sport'', lit ''seiko+prospex+sport+watch''),
     (lit ''dress'', lit ''seiko+presage+dress+watch''),
     (lit ''solar'', lit ''seiko+astron+solar+watch'')]"

definition hero_search_term :: "pystr \<Rightarrow> pystr" where
  "hero_search_term collection =
     (case map_of hero_search_terms collection of
        Some t \<Rightarrow> t
      | None \<Rightarrow> lit ''seiko+watch+luxury'')"

definition get_hero_banner :: "unicode_db \<Rightarrow> pystr \<Rightarrow> error + asset_record" where
  "get_hero_banner db collection =
     (case derive_seed (lit ''hero_'' @ collection) of
        Inl e \<Rightarrow> Inl e
      | Inr seed \<Rightarrow>
          let search_term = hero_search_term collection in
          case quote search_term of
            Inl e \<Rightarrow> Inl e
          | Inr q \<Rightarrow>
              Inr \<lparr>primary = base_unsplash_url @ lit ''/1920x600/?'' @ q
                       @ lit ''&sig='' @ decimal seed,
                   secondary = base_unsplash_url @ lit ''/1920x600/?luxury+timepiece&sig=''
                       @ decimal seed,
                   fallback = base_picsum_url @ lit ''/1920/600?random='' @ decimal seed,
                   alt = lit ''Seiko '' @ py_title db collection
                       @ lit '' Collection - Premium timepieces'',
                   title = lit ''Seiko '' @ py_title db collection @ lit '' Collection''\<rparr>)"

section \<open>The reachability probe\<close>

text \<open>
  \<open>requests.head(url, timeout=5)\<close> either returns a response with a status code or raises.
  The network is a parameter: a function from the URL and the timeout to that outcome.
  The bare \<open>except:\<close> catches every exception.
\<close>

datatype request_exception = Timeout | ConnectionError | OtherException

datatype head_outcome = Response (status_code: int) | Raises request_exception

definition validate_image_url ::
  "(pystr \<Rightarrow> nat \<Rightarrow> head_outcome) \<Rightarrow> pystr \<Rightarrow> request_exception + bool" where
  "validate_image_url requests_head url =
     (case requests_head url 5 of
        Response sc \<Rightarrow> Inr (sc = 200)
      | Raises e \<Rightarrow> Inr False)"

section \<open>Notions used to state the properties\<close>

text \<open>A byte sequence read as a big-endian unsigned integer.\<close>

definition big_endian :: "pybytes \<Rightarrow> nat" where
  "big_endian bs = foldl (\<lambda>acc b. 256 * acc + b) 0 bs"

text \<open>
  A character database with no case mapping outside ASCII, to run the model on concrete
  inputs. The concrete inputs below are ASCII strings and lone surrogates, which have no
  case mapping in CPython either.
\<close>

definition uncased_db :: unicode_db where
  "uncased_db = \<lparr>db_lower = (\<lambda>s. s), db_title = (\<lambda>s. s)\<rparr>"

section \<open>Facts about strings and encoding\<close>

lemma lit_eq_iff [simp]: "lit a = lit b \<longleftrightarrow> a = b"
  unfolding lit_def by (rule inj_map_eq_map) (simp add: inj_on_def)

lemma lit_Nil [simp]: "lit [] = []"
  by (simp add: lit_def)

lemma lit_append: "lit (a @ b) = lit a @ lit b"
  by (simp add: lit_def)

lemma of_char_less_256: "of_char c < (256::nat)"
  by (cases c) simp

lemma encodable_lit [simp]: "encodable (lit s)"
proof -
  have "\<not> is_surrogate (of_char c)" for c
    using of_char_less_256 [of c] unfolding is_surrogate_def by linarith
  then show ?thesis by (simp add: encodable_def lit_def list_all_iff)
qed

lemma encodable_append [simp]: "encodable (a @ b) \<longleftrightarrow> encodable a \<and> encodable b"
  by (simp add: encodable_def)

lemma utf8_char_ok: "\<not> is_surrogate c \<Longrightarrow> \<exists>bs. utf8_char c = Inr bs"
  by (simp add: utf8_char_def)

lemma utf8_char_surrogate: "is_surrogate c \<Longrightarrow> utf8_char c = Inl UnicodeEncodeError"
  by (simp add: utf8_char_def is_surrogate_def)

lemma encode_encodable: "encodable s \<Longrightarrow> \<exists>bs. encode s = Inr bs"
proof (induction s)
  case Nil
  then show ?case by simp
next
  case (Cons c cs)
  then obtain bs rest where "utf8_char c = Inr bs" "encode cs = Inr rest"
    using utf8_char_ok [of c] by (auto simp: encodable_def)
  then show ?case by simp
qed

lemma encode_not_encodable: "\<not> encodable s \<Longrightarrow> encode s = Inl UnicodeEncodeError"
proof (induction s)
  case Nil
  then show ?case by (simp add: encodable_def)
next
  case (Cons c cs)
  show ?case
  proof (cases "is_surrogate c")
    case True
    then show ?thesis by (simp add: utf8_char_surrogate)
  next
    case False
    then obtain bs where bs: "utf8_char c = Inr bs"
      using utf8_char_ok by blast
    from False Cons.prems have "\<not> encodable cs" by (simp add: encodable_def)
    then have "encode cs = Inl UnicodeEncodeError" by (rule Cons.IH)
    with bs show ?thesis by simp
  qed
qed

lemma encode_Inr_iff: "(\<exists>bs. encode s = Inr bs) \<longleftrightarrow> encodable s"
  by (cases "encodable s") (auto dest: encode_encodable encode_not_encodable)

lemma quote_encodable: "encodable s \<Longrightarrow> \<exists>q. quote s = Inr q"
  using encode_encodable [of s] by (auto simp: quote_def)

lemma quote_Inl: "quote s = Inl e \<Longrightarrow> e = UnicodeEncodeError \<and> \<not> encodable s"
  using encode_encodable [of s] encode_not_encodable [of s]
  by (auto simp: quote_def split: if_splits sum.splits)

lemma encodable_py_replace [simp]: "encodable (py_replace a b s) \<longleftrightarrow> encodable s"
proof -
  have "\<not> is_surrogate (of_char b)"
    using of_char_less_256 [of b] unfolding is_surrogate_def by linarith
  moreover have "\<not> is_surrogate (of_char a)"
    using of_char_less_256 [of a] unfolding is_surrogate_def by linarith
  ultimately show ?thesis
    by (induction s) (auto simp: encodable_def py_replace_def)
qed

section \<open>Facts about the digest and the seed\<close>

lemma hex_digit_val_hex_lower: "d < 16 \<Longrightarrow> hex_digit_val (hex_lower d) = Some d"
  by (auto simp: hex_digit_val_def hex_lower_def)

lemma hexdigest_Cons:
  "hexdigest (b # bs) = hex_lower (b div 16) # hex_lower (b mod 16) # hexdigest bs"
  by (simp add: hexdigest_def)

lemma hexdigest_Nil: "hexdigest [] = []"
  by (simp add: hexdigest_def)

lemma take_hexdigest: "take (2 * n) (hexdigest bs) = hexdigest (take n bs)"
proof (induction bs arbitrary: n)
  case Nil
  then show ?case by (simp add: hexdigest_Nil)
next
  case (Cons b bs)
  then show ?case by (cases n) (simp_all add: hexdigest_Cons hexdigest_Nil)
qed

lemma int16_from_hexdigest:
  "list_all (\<lambda>b. b < 256) bs \<Longrightarrow>
   int16_from acc (hexdigest bs) = Inr (foldl (\<lambda>a b. 256 * a + b) acc bs)"
proof (induction bs arbitrary: acc)
  case Nil
  then show ?case by (simp add: hexdigest_Nil)
next
  case (Cons b bs)
  from Cons.prems have b: "b < 256" and rest: "list_all (\<lambda>b. b < 256) bs"
    by simp_all
  from b have hi: "b div 16 < 16" by simp
  have lo: "b mod 16 < 16" by simp
  have "16 * (16 * acc + b div 16) + b mod 16 = 256 * acc + b"
    by simp
  with Cons.IH [OF rest] hi lo show ?case
    by (simp add: hexdigest_Cons hex_digit_val_hex_lower add.commute)
qed

lemma le_bytes_bound: "list_all (\<lambda>b. b < 256) (le_bytes k n)"
  by (simp add: le_bytes_def list_all_iff)

lemma length_le_bytes: "length (le_bytes k n) = k"
  by (simp add: le_bytes_def)

lemma length_md5: "length (md5 m) = 16"
  by (simp add: md5_def Let_def length_le_bytes split: prod.split)

lemma md5_bytes: "list_all (\<lambda>b. b < 256) (md5 m)"
  using le_bytes_bound by (simp add: md5_def Let_def split: prod.split)

lemma derive_seed_encode:
  assumes "encode key = Inr bs"
  shows "derive_seed key = Inr (big_endian (take 4 (md5 bs)) mod 10000)"
proof -
  have "take 8 (hexdigest (md5 bs)) = hexdigest (take 4 (md5 bs))"
    using take_hexdigest [of 4 "md5 bs"] by simp
  moreover have "hexdigest (take 4 (md5 bs)) \<noteq> []"
    using length_md5 [of bs] by (cases "md5 bs") (simp_all add: hexdigest_Cons)
  moreover have "list_all (\<lambda>b. b < 256) (take 4 (md5 bs))"
    using md5_bytes [of bs] by (auto simp: list_all_iff dest: in_set_takeD)
  ultimately show ?thesis
    using assms by (simp add: derive_seed_def int16_def int16_from_hexdigest big_endian_def)
qed

lemma derive_seed_encodable: "encodable key \<Longrightarrow> \<exists>seed. derive_seed key = Inr seed"
  using encode_encodable [of key] derive_seed_encode by blast

lemma derive_seed_Inl:
  "derive_seed key = Inl e \<Longrightarrow> e = UnicodeEncodeError \<and> \<not> encodable key"
  using derive_seed_encodable [of key] encode_not_encodable [of key]
  by (cases "encodable key") (auto simp: derive_seed_def)

section \<open>Facts about the operations\<close>

lemma collect_Inr_D: "collect f xs = Inr ys \<Longrightarrow> list_all2 (\<lambda>x y. f x = Inr y) xs ys"
proof (induction xs arbitrary: ys)
  case Nil
  then show ?case by simp
next
  case (Cons x xs)
  from Cons.prems obtain y ys' where "f x = Inr y" "collect f xs = Inr ys'" "ys = y # ys'"
    by (simp split: sum.splits)
  with Cons.IH [of ys'] show ?case by simp
qed

lemma collect_Inr_I: "list_all2 (\<lambda>x y. f x = Inr y) xs ys \<Longrightarrow> collect f xs = Inr ys"
  by (induction xs ys rule: list_all2_induct) simp_all

lemma decimal_digits: "list_all (\<lambda>c. 48 \<le> c \<and> c \<le> 57) (decimal n)"
proof (induction n rule: decimal.induct)
  case (1 n)
  show ?case
  proof (cases "n < 10")
    case True
    then show ?thesis by (subst decimal.simps) simp
  next
    case False
    have "n mod 10 < 10" by simp
    then have "48 + n mod 10 \<le> 57" by linarith
    with False "1.IH" show ?thesis by (subst decimal.simps) simp
  qed
qed

lemma encodable_decimal [simp]: "encodable (decimal n)"
proof -
  have "\<not> is_surrogate c" if "48 \<le> c \<and> c \<le> 57" for c
    using that unfolding is_surrogate_def by linarith
  then show ?thesis
    using decimal_digits [of n] by (auto simp: encodable_def list_all_iff)
qed

lemma collect_total: "(\<And>x. x \<in> set xs \<Longrightarrow> \<exists>y. f x = Inr y) \<Longrightarrow> \<exists>ys. collect f xs = Inr ys"
proof (induction xs)
  case Nil
  then show ?case by simp
next
  case (Cons x xs)
  then obtain y ys where "f x = Inr y" "collect f xs = Inr ys"
    by (meson list.set_intros)
  then show ?case by simp
qed

lemma section_image_Inr:
  assumes "section_image db section keywords i = Inr r"
  shows "\<exists>fallbacks seed qk qf.
      keywords \<noteq> [] \<and> map_of FALLBACK_CATEGORIES section = Some fallbacks \<and> fallbacks \<noteq> [] \<and>
      derive_seed (lit ''seiko_'' @ section @ lit ''_'' @ decimal i) = Inr seed \<and>
      quote (keywords ! (i mod length keywords)) = Inr qk \<and>
      quote (fallbacks ! (i mod length fallbacks)) = Inr qf \<and>
      r = \<lparr>primary = base_unsplash_url @ lit ''/1200x800/?'' @ qk @ lit ''&sig='' @ decimal seed,
           secondary = base_unsplash_url @ lit ''/1200x800/?'' @ qf @ lit ''&sig='' @ decimal seed,
           fallback = base_picsum_url @ lit ''/1200/800?random='' @ decimal seed,
           alt = lit ''Professional Seiko ''
               @ py_replace CHR ''+'' CHR '' '' (keywords ! (i mod length keywords))
               @ lit '' imagery'',
           title = lit ''Seiko '' @ py_title db section @ lit '' - ''
               @ py_title db (py_replace CHR ''+'' CHR '' '' (keywords ! (i mod length keywords)))\<rparr>"
  using assms unfolding section_image_def Let_def
  by (auto split: if_splits option.splits sum.splits)

lemma section_image_total:
  assumes "keywords \<noteq> []" and "map_of FALLBACK_CATEGORIES section = Some fallbacks"
    and "fallbacks \<noteq> []" and "encodable section"
    and "list_all encodable keywords" and "list_all encodable fallbacks"
  shows "\<exists>r. section_image db section keywords i = Inr r"
proof -
  have "encodable (lit ''seiko_'' @ section @ lit ''_'' @ decimal i)"
    using assms(4) by simp
  then obtain seed where seed: "derive_seed (lit ''seiko_'' @ section @ lit ''_'' @ decimal i) = Inr seed"
    using derive_seed_encodable by blast
  have "i mod length keywords < length keywords"
    using assms(1) by simp
  then have "encodable (keywords ! (i mod length keywords))"
    using assms(5) by (simp add: list_all_length)
  then obtain qk where qk: "quote (keywords ! (i mod length keywords)) = Inr qk"
    using quote_encodable by blast
  have "i mod length fallbacks < length fallbacks"
    using assms(3) by simp
  then have "encodable (fallbacks ! (i mod length fallbacks))"
    using assms(6) by (simp add: list_all_length)
  then obtain qf where qf: "quote (fallbacks ! (i mod length fallbacks)) = Inr qf"
    using quote_encodable by blast
  show ?thesis
    using assms(1-3) seed qk qf by (simp add: section_image_def Let_def)
qed

lemma categories_wf:
  assumes "(section, keywords) \<in> set SEIKO_WATCH_CATEGORIES"
  shows "length keywords = 6 \<and> encodable section \<and> list_all encodable keywords \<and>
     (\<exists>fallbacks. map_of FALLBACK_CATEGORIES section = Some fallbacks \<and>
        length fallbacks = 4 \<and> list_all encodable fallbacks)"
  using assms unfolding SEIKO_WATCH_CATEGORIES_def FALLBACK_CATEGORIES_def
  by auto

lemma categories_distinct: "distinct (map fst SEIKO_WATCH_CATEGORIES)"
  by (simp add: SEIKO_WATCH_CATEGORIES_def)

lemma section_range_nonpos: "section_count \<le> 0 \<Longrightarrow> section_range section_count keywords = []"
  by (simp add: section_range_def)

lemma length_section_range:
  "length (section_range section_count keywords) = nat (min section_count (int (length keywords)))"
  by (simp add: section_range_def)

lemma nth_section_range:
  "i < length (section_range section_count keywords) \<Longrightarrow>
   section_range section_count keywords ! i = i"
  by (simp add: section_range_def)

lemma get_seiko_assets_total: "\<exists>assets. get_seiko_assets db section_count = Inr assets"
  unfolding get_seiko_assets_def
proof (rule collect_total)
  fix x assume x: "x \<in> set SEIKO_WATCH_CATEGORIES"
  obtain sec kws where sk: "x = (sec, kws)"
    by (cases x)
  from categories_wf [of sec kws] x sk obtain fallbacks where
    wf: "length kws = 6" "encodable sec" "list_all encodable kws"
      "map_of FALLBACK_CATEGORIES sec = Some fallbacks" "length fallbacks = 4"
      "list_all encodable fallbacks"
    by auto
  then have "kws \<noteq> []" "fallbacks \<noteq> []"
    by auto
  with wf have "\<exists>r. section_image db sec kws i = Inr r" for i
    by (intro section_image_total)
  then obtain recs where
    "collect (section_image db sec kws) (section_range section_count kws) = Inr recs"
    using collect_total [of "section_range section_count kws" "section_image db sec kws"]
    by blast
  with sk show "\<exists>y. (case x of (section, keywords) \<Rightarrow>
      (case collect (section_image db section keywords) (section_range section_count keywords) of
        Inl e \<Rightarrow> Inl e | Inr section_images \<Rightarrow> Inr (section, section_images))) = Inr y"
    by simp
qed

lemma get_seiko_assets_Inr:
  assumes "get_seiko_assets db section_count = Inr assets"
  shows "list_all2 (\<lambda>(section, keywords) (section', recs). section' = section \<and>
            list_all2 (\<lambda>i r. section_image db section keywords i = Inr r)
              (section_range section_count keywords) recs)
          SEIKO_WATCH_CATEGORIES assets"
proof -
  from assms have "list_all2 (\<lambda>x y. (case x of (section, keywords) \<Rightarrow>
      (case collect (section_image db section keywords) (section_range section_count keywords) of
        Inl e \<Rightarrow> Inl e | Inr section_images \<Rightarrow> Inr (section, section_images))) = Inr y)
      SEIKO_WATCH_CATEGORIES assets"
    unfolding get_seiko_assets_def by (rule collect_Inr_D)
  then show ?thesis
  proof (rule list_all2_mono)
    fix x y
    assume h: "(case x of (section, keywords) \<Rightarrow>
      (case collect (section_image db section keywords) (section_range section_count keywords) of
        Inl e \<Rightarrow> Inl e | Inr section_images \<Rightarrow> Inr (section, section_images))) = Inr y"
    obtain sec kws where sk: "x = (sec, kws)" by (cases x)
    obtain sec' recs where y: "y = (sec', recs)" by (cases y)
    from h sk y have "sec' = sec"
      and "collect (section_image db sec kws) (section_range section_count kws) = Inr recs"
      by (simp_all split: sum.splits)
    then show "(case x of (section, keywords) \<Rightarrow> \<lambda>(section', recs). section' = section \<and>
            list_all2 (\<lambda>i r. section_image db section keywords i = Inr r)
              (section_range section_count keywords) recs) y"
      using sk y by (simp add: collect_Inr_D)
  qed
qed

lemma get_seiko_assets_keys:
  assumes "get_seiko_assets db section_count = Inr assets"
  shows "map fst assets = map fst SEIKO_WATCH_CATEGORIES"
proof -
  have "list_all2 (\<lambda>x y. fst y = fst x) SEIKO_WATCH_CATEGORIES assets"
    using get_seiko_assets_Inr [OF assms] by (rule list_all2_mono) auto
  then show ?thesis
    by (induction rule: list_all2_induct) simp_all
qed

lemma get_seiko_assets_section:
  assumes "get_seiko_assets db section_count = Inr assets"
    and "(section, keywords) \<in> set SEIKO_WATCH_CATEGORIES"
  shows "\<exists>recs. map_of assets section = Some recs \<and>
     list_all2 (\<lambda>i r. section_image db section keywords i = Inr r)
       (section_range section_count keywords) recs"
proof -
  note all2 = get_seiko_assets_Inr [OF assms(1)]
  from assms(2) obtain j where j: "j < length SEIKO_WATCH_CATEGORIES"
    "SEIKO_WATCH_CATEGORIES ! j = (section, keywords)"
    by (auto simp: in_set_conv_nth)
  from all2 have len: "length assets = length SEIKO_WATCH_CATEGORIES"
    by (simp add: list_all2_lengthD)
  obtain sec' recs where aj: "assets ! j = (sec', recs)"
    by (cases "assets ! j")
  from list_all2_nthD [OF all2 j(1)] j(2) aj have "sec' = section"
    and recs: "list_all2 (\<lambda>i r. section_image db section keywords i = Inr r)
       (section_range section_count keywords) recs"
    by simp_all
  with aj j(1) len have "(section, recs) \<in> set assets"
    by (metis nth_mem)
  moreover have "distinct (map fst assets)"
    using get_seiko_assets_keys [OF assms(1)] categories_distinct by simp
  ultimately have "map_of assets section = Some recs"
    by simp
  with recs show ?thesis by blast
qed

lemma get_seiko_assets_member:
  assumes "get_seiko_assets db section_count = Inr assets"
    and "(section, recs) \<in> set assets" and "r \<in> set recs"
  shows "\<exists>keywords i. (section, keywords) \<in> set SEIKO_WATCH_CATEGORIES \<and>
     section_image db section keywords i = Inr r"
proof -
  note all2 = get_seiko_assets_Inr [OF assms(1)]
  from assms(2) obtain j where j: "j < length assets" "assets ! j = (section, recs)"
    by (auto simp: in_set_conv_nth)
  obtain sec' kws where cj: "SEIKO_WATCH_CATEGORIES ! j = (sec', kws)"
    by (cases "SEIKO_WATCH_CATEGORIES ! j")
  from list_all2_nthD2 [OF all2 j(1)] j(2) cj have eq: "section = sec'"
    and recs: "list_all2 (\<lambda>i r. section_image db sec' kws i = Inr r)
       (section_range section_count kws) recs"
    by simp_all
  from all2 j(1) have "j < length SEIKO_WATCH_CATEGORIES"
    by (simp add: list_all2_lengthD)
  with cj eq have mem: "(section, kws) \<in> set SEIKO_WATCH_CATEGORIES"
    by (metis nth_mem)
  from assms(3) obtain k where k: "k < length recs" "recs ! k = r"
    by (auto simp: in_set_conv_nth)
  from list_all2_nthD2 [OF recs k(1)] k(2) eq
  have "section_image db section kws (section_range section_count kws ! k) = Inr r"
    by simp
  with mem show ?thesis by blast
qed

lemma product_search_terms_encodable:
  assumes "encodable clean_name"
  shows "encodable (product_search_terms clean_name image_type ! 0)"
    and "encodable (product_search_terms clean_name image_type ! 1)"
  using assms by (simp_all add: product_search_terms_def)

lemma get_product_image_Inr:
  assumes "get_product_image db product_name image_type = Inr r"
    and "clean_name = py_replace CHR '' '' CHR ''+'' (py_lower db product_name)"
  shows "\<exists>seed q0 q1.
      derive_seed (clean_name @ lit ''_'' @ image_type) = Inr seed \<and>
      quote (product_search_terms clean_name image_type ! 0) = Inr q0 \<and>
      quote (product_search_terms clean_name image_type ! 1) = Inr q1 \<and>
      r = \<lparr>primary = base_unsplash_url @ lit ''/800x800/?'' @ q0 @ lit ''&sig='' @ decimal seed,
           secondary = base_unsplash_url @ lit ''/800x800/?'' @ q1 @ lit ''&sig='' @ decimal seed,
           fallback = base_picsum_url @ lit ''/800/800?random='' @ decimal seed,
           alt = product_name @ lit '' - Professional watch photography'',
           title = product_name\<rparr>"
  using assms unfolding get_product_image_def Let_def
  by (simp split: sum.splits)

lemma get_product_image_total:
  assumes "encodable (py_lower db product_name)" and "encodable image_type"
  shows "\<exists>r. get_product_image db product_name image_type = Inr r"
proof -
  define clean_name where "clean_name = py_replace CHR '' '' CHR ''+'' (py_lower db product_name)"
  have clean: "encodable clean_name"
    using assms(1) by (simp add: clean_name_def)
  with assms(2) obtain seed where "derive_seed (clean_name @ lit ''_'' @ image_type) = Inr seed"
    using derive_seed_encodable [of "clean_name @ lit ''_'' @ image_type"] by auto
  moreover obtain q0 where "quote (product_search_terms clean_name image_type ! 0) = Inr q0"
    using product_search_terms_encodable(1) [OF clean] quote_encodable by blast
  moreover obtain q1 where "quote (product_search_terms clean_name image_type ! 1) = Inr q1"
    using product_search_terms_encodable(2) [OF clean] quote_encodable by blast
  ultimately show ?thesis
    by (simp add: get_product_image_def Let_def clean_name_def)
qed

lemma get_product_image_raises:
  assumes "\<not> (encodable (py_lower db product_name) \<and> encodable image_type)"
  shows "get_product_image db product_name image_type = Inl UnicodeEncodeError"
proof -
  have "\<not> encodable (py_replace CHR '' '' CHR ''+'' (py_lower db product_name)
      @ lit ''_'' @ image_type)"
    using assms by simp
  then have "encode (py_replace CHR '' '' CHR ''+'' (py_lower db product_name)
      @ lit ''_'' @ image_type) = Inl UnicodeEncodeError"
    by (rule encode_not_encodable)
  then show ?thesis
    by (simp add: get_product_image_def Let_def derive_seed_def)
qed

lemma hero_search_term_encodable: "encodable (hero_search_term collection)"
  by (simp add: hero_search_term_def hero_search_terms_def)

lemma get_hero_banner_Inr:
  assumes "get_hero_banner db collection = Inr r"
  shows "\<exists>seed q.
      derive_seed (lit ''hero_'' @ collection) = Inr seed \<and>
      quote (hero_search_term collection) = Inr q \<and>
      r = \<lparr>primary = base_unsplash_url @ lit ''/1920x600/?'' @ q @ lit ''&sig='' @ decimal seed,
           secondary = base_unsplash_url @ lit ''/1920x600/?luxury+timepiece&sig=''
               @ decimal seed,
           fallback = base_picsum_url @ lit ''/1920/600?random='' @ decimal seed,
           alt = lit ''Seiko '' @ py_title db collection
               @ lit '' Collection - Premium timepieces'',
           title = lit ''Seiko '' @ py_title db collection @ lit '' Collection''\<rparr>"
  using assms unfolding get_hero_banner_def Let_def
  by (simp split: sum.splits)

lemma get_hero_banner_total:
  assumes "encodable collection"
  shows "\<exists>r. get_hero_banner db collection = Inr r"
proof -
  obtain seed where "derive_seed (lit ''hero_'' @ collection) = Inr seed"
    using assms derive_seed_encodable [of "lit ''hero_'' @ collection"] by auto
  moreover obtain q where "quote (hero_search_term collection) = Inr q"
    using hero_search_term_encodable quote_encodable by blast
  ultimately show ?thesis
    by (simp add: get_hero_banner_def Let_def)
qed

lemma get_hero_banner_raises:
  assumes "\<not> encodable collection"
  shows "get_hero_banner db collection = Inl UnicodeEncodeError"
proof -
  have "\<not> encodable (lit ''hero_'' @ collection)"
    using assms by simp
  then have "encode (lit ''hero_'' @ collection) = Inl UnicodeEncodeError"
    by (rule encode_not_encodable)
  then show ?thesis
    by (simp add: get_hero_banner_def derive_seed_def)
qed

lemma hex_upper_not_amp: "hex_upper d \<noteq> 38"
  by (simp add: hex_upper_def)

lemma quote_no_ampersand:
  assumes "quote s = Inr q"
  shows "of_char CHR ''&'' \<notin> set q"
proof -
  have "38 \<notin> set (quote_byte b)" for b
    using hex_upper_not_amp by (auto simp: quote_byte_def always_safe_def)
  then have "38 \<notin> set (concat (map quote_byte bs))" for bs
    by auto
  with assms show ?thesis
    by (auto simp: quote_def split: if_splits sum.splits)
qed

section \<open>Concrete strings\<close>

lemma not_encodable_surrogate: "\<not> encodable [0xD800]"
  by (simp add: encodable_def is_surrogate_def)

lemma py_lower_ascii_lit:
  "py_lower db (lit ''Seiko Prospex Solar Diver'') = lit ''seiko prospex solar diver''"
  by (simp add: py_lower_def is_ascii_def lit_def ascii_lower_def)

lemma clean_name_example:
  "py_replace CHR '' '' CHR ''+'' (lit ''seiko prospex solar diver'')
     = lit ''seiko+prospex+solar+diver''"
  by (simp add: py_replace_def lit_def)

lemma quote_example_detail:
  "quote (lit ''seiko+prospex+solar+diver+detail'')
     = Inr (lit ''seiko%2Bprospex%2Bsolar%2Bdiver%2Bdetail'')"
  by (simp add: quote_def lit_def utf8_char_def quote_byte_def always_safe_def hex_upper_def)

lemma quote_generic_terms:
  "quote (lit ''seiko+watch'') = Inr (lit ''seiko%2Bwatch'')"
  "quote (lit ''luxury+timepiece'') = Inr (lit ''luxury%2Btimepiece'')"
  "quote (lit ''watch+mechanism'') = Inr (lit ''watch%2Bmechanism'')"
  "quote (lit ''seiko+watch+luxury'') = Inr (lit ''seiko%2Bwatch%2Bluxury'')"
  by (simp_all add: quote_def lit_def utf8_char_def quote_byte_def always_safe_def hex_upper_def)

section \<open>Digest test vectors\<close>

text \<open>
  The digest model evaluated on three keys of the operations; the digests are
  \<open>794450daa1b2dcc9dafe4aa04afa53a2\<close>, \<open>80f870c823ba36037100d45f03e8b774\<close> and
  \<open>d75e38af53c6af7510595aa325ba9123\<close>.
\<close>

lemma upt_0_numeral: "[0..<numeral n] = 0 # [Suc 0..<numeral n]"
  by (subst upt_rec) simp

lemma upt_1_numeral:
  "[Suc 0..<numeral n] = (if Suc 0 < numeral n then Suc 0 # [2..<numeral n] else [])"
  by (subst upt_rec) (simp del: upt_rec_numeral add: numeral_2_eq_2)

lemma le_bytes_4:
  "le_bytes 4 n = [n mod 256, n div 256 mod 256, n div 65536 mod 256, n div 16777216 mod 256]"
  by (simp add: le_bytes_def upt_0_numeral upt_1_numeral)

lemma le_bytes_8_small:
  "n < 65536 \<Longrightarrow> le_bytes 8 n = [n mod 256, n div 256, 0, 0, 0, 0, 0, 0]"
  by (simp add: le_bytes_def upt_0_numeral upt_1_numeral)

lemma replicate_numeral: "replicate (numeral k) x = x # replicate (pred_numeral k) x"
  by (simp add: numeral_eq_Suc)

lemma hero_luxury_bytes:
  "encode (lit ''hero_luxury'') =
     Inr [104, 101, 114, 111, 95, 108, 117, 120, 117, 114, 121]"
  by (simp add: lit_def utf8_char_def)

lemma hero_luxury_pad:
  "md5_pad
     [104, 101, 114, 111, 95, 108, 117, 120, 117, 114, 121] =
     [104, 101, 114, 111, 95, 108, 117, 120, 117, 114, 121, 128, 0, 0, 0, 0, 0, 0, 0, 0, 0,
      0, 0, 0, 0, 0, 0, 0, 0, 0, 0, 0, 0, 0, 0, 0, 0, 0, 0, 0, 0, 0, 0, 0, 0, 0, 0, 0, 0,
      0, 0, 0, 0, 0, 0, 0, 88, 0, 0, 0, 0, 0, 0, 0]"
  by (simp add: md5_pad_def le_bytes_8_small replicate_numeral)

lemma hero_luxury_words:
  "block_words
     [104, 101, 114, 111, 95, 108, 117, 120, 117, 114, 121, 128, 0, 0, 0, 0, 0, 0, 0, 0, 0,
      0, 0, 0, 0, 0, 0, 0, 0, 0, 0, 0, 0, 0, 0, 0, 0, 0, 0, 0, 0, 0, 0, 0, 0, 0, 0, 0, 0,
      0, 0, 0, 0, 0, 0, 0, 88, 0, 0, 0, 0, 0, 0, 0] =
     [1869768040, 2020961375, 2155442805, 0, 0, 0, 0, 0, 0, 0, 0, 0, 0, 0, 88, 0]"
  by (simp add: block_words_def upt_0_numeral upt_1_numeral word_of_le_def)

lemma hero_luxury_rounds:
  "fold (md5_step
     [1869768040, 2020961375, 2155442805, 0, 0, 0, 0, 0, 0, 0, 0, 0, 0, 0, 88, 0])
     [0..<64] (0x67452301, 0xefcdab89, 0x98badcfe, 0x10325476) =
     (1930109304, 3658417944, 126886364, 2451678676)"
  by (simp add: upt_0_numeral upt_1_numeral md5_step_def md5_K_def md5_s_def rotl32_def)

lemma hero_luxury_digest:
  "md5
     [104, 101, 114, 111, 95, 108, 117, 120, 117, 114, 121] =
     [121, 68, 80, 218, 161, 178, 220, 201, 218, 254, 74, 160, 74, 250, 83, 162]"
  by (simp add: md5_def hero_luxury_pad md5_block_def hero_luxury_words hero_luxury_rounds le_bytes_4)

lemma hero_luxury_seed: "derive_seed (lit ''hero_luxury'') = Inr 282"
  by (simp add: derive_seed_encode [OF hero_luxury_bytes] hero_luxury_digest big_endian_def)

lemma detail_key_bytes:
  "encode (lit ''seiko+prospex+solar+diver_detail'') =
     Inr [115, 101, 105, 107, 111, 43, 112, 114, 111, 115, 112, 101, 120, 43, 115, 111, 108,
      97, 114, 43, 100, 105, 118, 101, 114, 95, 100, 101, 116, 97, 105, 108]"
  by (simp add: lit_def utf8_char_def)

lemma detail_key_pad:
  "md5_pad
     [115, 101, 105, 107, 111, 43, 112, 114, 111, 115, 112, 101, 120, 43, 115, 111, 108,
      97, 114, 43, 100, 105, 118, 101, 114, 95, 100, 101, 116, 97, 105, 108] =
     [115, 101, 105, 107, 111, 43, 112, 114, 111, 115, 112, 101, 120, 43, 115, 111, 108,
      97, 114, 43, 100, 105, 118, 101, 114, 95, 100, 101, 116, 97, 105, 108, 128, 0, 0, 0,
      0, 0, 0, 0, 0, 0, 0, 0, 0, 0, 0, 0, 0, 0, 0, 0, 0, 0, 0, 0, 0, Suc 0, 0, 0, 0, 0, 0, 0]"
  by (simp add: md5_pad_def le_bytes_8_small replicate_numeral)

lemma detail_key_words:
  "block_words
     [115, 101, 105, 107, 111, 43, 112, 114, 111, 115, 112, 101, 120, 43, 115, 111, 108,
      97, 114, 43, 100, 105, 118, 101, 114, 95, 100, 101, 116, 97, 105, 108, 128, 0, 0, 0,
      0, 0, 0, 0, 0, 0, 0, 0, 0, 0, 0, 0, 0, 0, 0, 0, 0, 0, 0, 0, 0, Suc 0, 0, 0, 0, 0, 0, 0] =
     [1802069363, 1919953775, 1701868399, 1869818744, 728916332, 1702259044, 1701076850,
      1818845556, 128, 0, 0, 0, 0, 0, 256, 0]"
  by (simp add: block_words_def upt_0_numeral upt_1_numeral word_of_le_def)

lemma detail_key_rounds:
  "fold (md5_step
     [1802069363, 1919953775, 1701868399, 1869818744, 728916332, 1702259044, 1701076850,
      1818845556, 128, 0, 0, 0, 0, 0, 256, 0])
     [0..<64] (0x67452301, 0xefcdab89, 0x98badcfe, 0x10325476) =
     (1630262655, 325652122, 3340313459, 1686475661)"
  by (simp add: upt_0_numeral upt_1_numeral md5_step_def md5_K_def md5_s_def rotl32_def)

lemma detail_key_digest:
  "md5
     [115, 101, 105, 107, 111, 43, 112, 114, 111, 115, 112, 101, 120, 43, 115, 111, 108,
      97, 114, 43, 100, 105, 118, 101, 114, 95, 100, 101, 116, 97, 105, 108] =
     [128, 248, 112, 200, 35, 186, 54, 3, 113, 0, 212, 95, 3, 232, 183, 116]"
  by (simp add: md5_def detail_key_pad md5_block_def detail_key_words detail_key_rounds le_bytes_4)

lemma detail_key_seed: "derive_seed (lit ''seiko+prospex+solar+diver_detail'') = Inr 5448"
  by (simp add: derive_seed_encode [OF detail_key_bytes] detail_key_digest big_endian_def)

lemma sports_key_bytes:
  "encode (lit ''seiko+5+sports_main'') =
     Inr [115, 101, 105, 107, 111, 43, 53, 43, 115, 112, 111, 114, 116, 115, 95, 109, 97, 105,
      110]"
  by (simp add: lit_def utf8_char_def)

lemma sports_key_pad:
  "md5_pad
     [115, 101, 105, 107, 111, 43, 53, 43, 115, 112, 111, 114, 116, 115, 95, 109, 97, 105,
      110] =
     [115, 101, 105, 107, 111, 43, 53, 43, 115, 112, 111, 114, 116, 115, 95, 109, 97, 105,
      110, 128, 0, 0, 0, 0, 0, 0, 0, 0, 0, 0, 0, 0, 0, 0, 0, 0, 0, 0, 0, 0, 0, 0, 0, 0, 0,
      0, 0, 0, 0, 0, 0, 0, 0, 0, 0, 0, 152, 0, 0, 0, 0, 0, 0, 0]"
  by (simp add: md5_pad_def le_bytes_8_small replicate_numeral)

lemma sports_key_words:
  "block_words
     [115, 101, 105, 107, 111, 43, 53, 43, 115, 112, 111, 114, 116, 115, 95, 109, 97, 105,
      110, 128, 0, 0, 0, 0, 0, 0, 0, 0, 0, 0, 0, 0, 0, 0, 0, 0, 0, 0, 0, 0, 0, 0, 0, 0, 0,
      0, 0, 0, 0, 0, 0, 0, 0, 0, 0, 0, 152, 0, 0, 0, 0, 0, 0, 0] =
     [1802069363, 724904815, 1919905907, 1834972020, 2154719585, 0, 0, 0, 0, 0, 0, 0, 0, 0,
      152, 0]"
  by (simp add: block_words_def upt_0_numeral upt_1_numeral word_of_le_def)

lemma sports_key_rounds:
  "fold (md5_step
     [1802069363, 724904815, 1919905907, 1834972020, 2154719585, 0, 0, 0, 0, 0, 0, 0, 0, 0,
      152, 0])
     [0..<64] (0x67452301, 0xefcdab89, 0x98badcfe, 0x10325476) =
     (1207122902, 2246187722, 178224146, 325019055)"
  by (simp add: upt_0_numeral upt_1_numeral md5_step_def md5_K_def md5_s_def rotl32_def)

lemma sports_key_digest:
  "md5
     [115, 101, 105, 107, 111, 43, 53, 43, 115, 112, 111, 114, 116, 115, 95, 109, 97, 105,
      110] =
     [215, 94, 56, 175, 83, 198, 175, 117, 16, 89, 90, 163, 37, 186, 145, 35]"
  by (simp add: md5_def sports_key_pad md5_block_def sports_key_words sports_key_rounds le_bytes_4)

lemma sports_key_seed: "derive_seed (lit ''seiko+5+sports_main'') = Inr 6335"
  by (simp add: derive_seed_encode [OF sports_key_bytes] sports_key_digest big_endian_def)

lemma decimal_examples:
  "decimal 282 = lit ''282''" "decimal 5448 = lit ''5448''"
  by (simp_all add: decimal.simps lit_def)

section \<open>The claims\<close>

text \<open>
  C8. The probe returns true exactly when the HEAD request with timeout 5 completes with
  status 200; a raised exception or any other status gives false, and the result is always
  a returned boolean, never an escaping exception.
\<close>

theorem validate_image_url_true_iff_200:
  "validate_image_url requests_head url = Inr (requests_head url 5 = Response 200)"
  by (simp add: validate_image_url_def split: head_outcome.split)

text \<open>
  C10. For a section count of zero or less, \<open>get_seiko_assets\<close> returns without error the
  mapping of the six section names, in table order, each to the empty list.
\<close>

theorem nonpositive_count_gives_empty_sections:
  assumes "section_count \<le> 0"
  shows "get_seiko_assets db section_count =
     Inr [(lit ''hero'', []), (lit ''products'', []), (lit ''lifestyle'', []),
          (lit ''collections'', []), (lit ''craftsmanship'', []), (lit ''trust'', [])]"
  using assms
  by (simp add: get_seiko_assets_def SEIKO_WATCH_CATEGORIES_def section_range_nonpos)

theorem nonpositive_count_gives_empty_sections_witness:
  "get_seiko_assets uncased_db (- 3) =
     Inr [(lit ''hero'', []), (lit ''products'', []), (lit ''lifestyle'', []),
          (lit ''collections'', []), (lit ''craftsmanship'', []), (lit ''trust'', [])]"
  using nonpositive_count_gives_empty_sections [of "- 3" uncased_db] by simp

text \<open>
  C3. For a positive section count and a section of the keyword table, the result maps the
  section to exactly min(section count, number of keywords) records, and the record at
  index i is built from \<open>keywords[i mod len(keywords)]\<close> and
  \<open>fallbacks[i mod len(fallbacks)]\<close>. Every section has six keywords, so a count of 20
  gives six records.
\<close>

theorem section_records_count_and_keywords:
  assumes "0 < section_count" and "(section, keywords) \<in> set SEIKO_WATCH_CATEGORIES"
  shows "\<exists>assets recs fallbacks.
      get_seiko_assets db section_count = Inr assets \<and>
      map_of assets section = Some recs \<and>
      map_of FALLBACK_CATEGORIES section = Some fallbacks \<and>
      length keywords = 6 \<and>
      int (length recs) = min section_count (int (length keywords)) \<and>
      (\<forall>i < length recs. \<exists>seed qk qf.
          derive_seed (lit ''seiko_'' @ section @ lit ''_'' @ decimal i) = Inr seed \<and>
          quote (keywords ! (i mod length keywords)) = Inr qk \<and>
          quote (fallbacks ! (i mod length fallbacks)) = Inr qf \<and>
          primary (recs ! i) =
            base_unsplash_url @ lit ''/1200x800/?'' @ qk @ lit ''&sig='' @ decimal seed \<and>
          secondary (recs ! i) =
            base_unsplash_url @ lit ''/1200x800/?'' @ qf @ lit ''&sig='' @ decimal seed \<and>
          alt (recs ! i) = lit ''Professional Seiko ''
            @ py_replace CHR ''+'' CHR '' '' (keywords ! (i mod length keywords))
            @ lit '' imagery'')"
proof -
  obtain assets where assets: "get_seiko_assets db section_count = Inr assets"
    using get_seiko_assets_total by blast
  from get_seiko_assets_section [OF assets assms(2)] obtain recs where
    recs: "map_of assets section = Some recs"
    and all2: "list_all2 (\<lambda>i r. section_image db section keywords i = Inr r)
       (section_range section_count keywords) recs"
    by blast
  from categories_wf [OF assms(2)] obtain fallbacks where
    len6: "length keywords = 6" and fb: "map_of FALLBACK_CATEGORIES section = Some fallbacks"
    by blast
  have len: "length recs = nat (min section_count (int (length keywords)))"
    using list_all2_lengthD [OF all2] by (simp add: length_section_range)
  with assms(1) have len': "int (length recs) = min section_count (int (length keywords))"
    by simp
  have "\<exists>seed qk qf.
          derive_seed (lit ''seiko_'' @ section @ lit ''_'' @ decimal i) = Inr seed \<and>
          quote (keywords ! (i mod length keywords)) = Inr qk \<and>
          quote (fallbacks ! (i mod length fallbacks)) = Inr qf \<and>
          primary (recs ! i) =
            base_unsplash_url @ lit ''/1200x800/?'' @ qk @ lit ''&sig='' @ decimal seed \<and>
          secondary (recs ! i) =
            base_unsplash_url @ lit ''/1200x800/?'' @ qf @ lit ''&sig='' @ decimal seed \<and>
          alt (recs ! i) = lit ''Professional Seiko ''
            @ py_replace CHR ''+'' CHR '' '' (keywords ! (i mod length keywords))
            @ lit '' imagery''" if i: "i < length recs" for i
  proof -
    from i have i': "i < length (section_range section_count keywords)"
      using list_all2_lengthD [OF all2] by simp
    have "section_image db section keywords (section_range section_count keywords ! i)
        = Inr (recs ! i)"
      using list_all2_nthD2 [OF all2 i] .
    then have "section_image db section keywords i = Inr (recs ! i)"
      using nth_section_range [OF i'] by simp
    from section_image_Inr [OF this] fb show ?thesis
      by auto
  qed
  with assets recs fb len6 len' show ?thesis
    by blast
qed

theorem section_records_count_and_keywords_witness:
  "\<exists>assets recs.
      get_seiko_assets uncased_db 20 = Inr assets \<and>
      map_of assets (lit ''hero'') = Some recs \<and> length recs = 6"
proof -
  have "(lit ''hero'', map lit
        [''seiko+watch+luxury'', ''luxury+timepiece'', ''premium+watch'',
         ''seiko+automatic'', ''watch+collection'', ''luxury+wristwatch''])
      \<in> set SEIKO_WATCH_CATEGORIES"
    by (simp add: SEIKO_WATCH_CATEGORIES_def)
  from section_records_count_and_keywords [OF _ this, of 20 uncased_db]
  show ?thesis by auto
qed

text \<open>
  C4. Whenever a seed is derived from a composite key, it lies in [0, 9999] and is the
  first four bytes of the 16-byte MD5 digest of the encoded key, read as a big-endian
  unsigned integer, modulo 10000; a seed is derived from every encodable key. The three
  operations derive their seed from the keys \<open>seiko_{section}_{i}\<close>,
  \<open>{clean_name}_{image_type}\<close> and \<open>hero_{collection}\<close>.
\<close>

theorem seed_is_truncated_digest:
  "(encodable key \<longrightarrow> (\<exists>seed. derive_seed key = Inr seed)) \<and>
   (\<forall>seed. derive_seed key = Inr seed \<longrightarrow>
      seed \<le> 9999 \<and>
      (\<exists>bs. encode key = Inr bs \<and> length (md5 bs) = 16 \<and>
         seed = big_endian (take 4 (md5 bs)) mod 10000)) \<and>
   (\<forall>r. section_image db section keywords i = Inr r \<longrightarrow>
      (\<exists>seed. derive_seed (lit ''seiko_'' @ section @ lit ''_'' @ decimal i) = Inr seed \<and>
         fallback r = base_picsum_url @ lit ''/1200/800?random='' @ decimal seed)) \<and>
   (\<forall>r. get_product_image db product_name image_type = Inr r \<longrightarrow>
      (\<exists>seed. derive_seed (py_replace CHR '' '' CHR ''+'' (py_lower db product_name)
                  @ lit ''_'' @ image_type) = Inr seed \<and>
         fallback r = base_picsum_url @ lit ''/800/800?random='' @ decimal seed)) \<and>
   (\<forall>r. get_hero_banner db collection = Inr r \<longrightarrow>
      (\<exists>seed. derive_seed (lit ''hero_'' @ collection) = Inr seed \<and>
         fallback r = base_picsum_url @ lit ''/1920/600?random='' @ decimal seed))"
proof (intro conjI allI impI)
  assume "encodable key"
  then show "\<exists>seed. derive_seed key = Inr seed"
    by (rule derive_seed_encodable)
next
  fix seed assume seed: "derive_seed key = Inr seed"
  then obtain bs where bs: "encode key = Inr bs"
    by (auto simp: derive_seed_def split: sum.splits)
  from derive_seed_encode [OF bs] seed
  have eq: "seed = big_endian (take 4 (md5 bs)) mod 10000"
    by simp
  then have "seed < 10000" by simp
  then show "seed \<le> 9999" by simp
  from bs eq show "\<exists>bs. encode key = Inr bs \<and> length (md5 bs) = 16 \<and>
      seed = big_endian (take 4 (md5 bs)) mod 10000"
    using length_md5 by blast
next
  fix r assume "section_image db section keywords i = Inr r"
  from section_image_Inr [OF this]
  show "\<exists>seed. derive_seed (lit ''seiko_'' @ section @ lit ''_'' @ decimal i) = Inr seed \<and>
      fallback r = base_picsum_url @ lit ''/1200/800?random='' @ decimal seed"
    by auto
next
  fix r assume "get_product_image db product_name image_type = Inr r"
  from get_product_image_Inr [OF this refl]
  show "\<exists>seed. derive_seed (py_replace CHR '' '' CHR ''+'' (py_lower db product_name)
                  @ lit ''_'' @ image_type) = Inr seed \<and>
      fallback r = base_picsum_url @ lit ''/800/800?random='' @ decimal seed"
    by auto
next
  fix r assume "get_hero_banner db collection = Inr r"
  from get_hero_banner_Inr [OF this]
  show "\<exists>seed. derive_seed (lit ''hero_'' @ collection) = Inr seed \<and>
      fallback r = base_picsum_url @ lit ''/1920/600?random='' @ decimal seed"
    by auto
qed

theorem seed_is_truncated_digest_witness:
  "derive_seed (lit ''hero_luxury'') = Inr 282 \<and> (282::nat) \<le> 9999 \<and>
   (\<exists>bs. encode (lit ''hero_luxury'') = Inr bs \<and> length (md5 bs) = 16 \<and>
      282 = big_endian (take 4 (md5 bs)) mod 10000) \<and>
   (\<exists>r. get_hero_banner uncased_db (lit ''luxury'') = Inr r \<and>
      fallback r = base_picsum_url @ lit ''/1920/600?random=282'')"
proof -
  note inst = seed_is_truncated_digest
    [of "lit ''hero_luxury''" uncased_db "lit ''hero''" "[]" 0 "[]" "[]" "lit ''luxury''"]
  have key: "lit ''hero_'' @ lit ''luxury'' = lit ''hero_luxury''"
    by (simp add: lit_append [symmetric])
  have url: "lit ''/1920/600?random='' @ decimal 282 = lit ''/1920/600?random=282''"
    by (simp add: decimal_examples lit_append [symmetric])
  obtain r where r: "get_hero_banner uncased_db (lit ''luxury'') = Inr r"
    using get_hero_banner_total [of "lit ''luxury''" uncased_db] by auto
  with inst have "fallback r = base_picsum_url @ lit ''/1920/600?random=282''"
    by (simp add: key hero_luxury_seed url)
  with r inst show ?thesis
    by (simp add: hero_luxury_seed)
qed

text \<open>
  C6. Whatever the collection key, the secondary URL of a hero banner carries the constant
  search term \<open>luxury+timepiece\<close>; the primary URL carries the quoted term looked up for
  the key, which differs between collections.
\<close>

theorem hero_secondary_term_is_constant:
  "(encodable collection \<longrightarrow> (\<exists>r. get_hero_banner db collection = Inr r)) \<and>
   (\<forall>r. get_hero_banner db collection = Inr r \<longrightarrow>
      (\<exists>seed q.
         derive_seed (lit ''hero_'' @ collection) = Inr seed \<and>
         quote (hero_search_term collection) = Inr q \<and>
         secondary r =
           base_unsplash_url @ lit ''/1920x600/?luxury+timepiece&sig='' @ decimal seed \<and>
         primary r =
           base_unsplash_url @ lit ''/1920x600/?'' @ q @ lit ''&sig='' @ decimal seed)) \<and>
   hero_search_term (lit ''luxury'') = lit ''seiko+luxury+watch+collection'' \<and>
   hero_search_term (lit ''sport'') = lit ''seiko+prospex+sport+watch'' \<and>
   hero_search_term (lit ''dress'') = lit ''seiko+presage+dress+watch'' \<and>
   hero_search_term (lit ''solar'') = lit ''seiko+astron+solar+watch'' \<and>
   hero_search_term (lit ''unknown-collection'') = lit ''seiko+watch+luxury''"
proof (intro conjI allI impI)
  assume "encodable collection"
  then show "\<exists>r. get_hero_banner db collection = Inr r"
    by (rule get_hero_banner_total)
next
  fix r assume "get_hero_banner db collection = Inr r"
  from get_hero_banner_Inr [OF this]
  show "\<exists>seed q.
         derive_seed (lit ''hero_'' @ collection) = Inr seed \<and>
         quote (hero_search_term collection) = Inr q \<and>
         secondary r =
           base_unsplash_url @ lit ''/1920x600/?luxury+timepiece&sig='' @ decimal seed \<and>
         primary r =
           base_unsplash_url @ lit ''/1920x600/?'' @ q @ lit ''&sig='' @ decimal seed"
    by auto
qed (simp_all add: hero_search_term_def hero_search_terms_def)

theorem hero_secondary_term_is_constant_witness:
  "\<exists>r seed.
      get_hero_banner uncased_db (lit ''sport'') = Inr r \<and>
      derive_seed (lit ''hero_sport'') = Inr seed \<and>
      secondary r =
        base_unsplash_url @ lit ''/1920x600/?luxury+timepiece&sig='' @ decimal seed"
proof -
  note inst = hero_secondary_term_is_constant [of "lit ''sport''" uncased_db]
  have key: "lit ''hero_'' @ lit ''sport'' = lit ''hero_sport''"
    by (simp add: lit_append [symmetric])
  from inst obtain r where "get_hero_banner uncased_db (lit ''sport'') = Inr r"
    by auto
  with inst key show ?thesis
    by auto
qed

text \<open>
  C9. In every record of the three operations the primary, secondary and fallback URLs end
  in the decimal rendering of one and the same seed, as the \<open>sig\<close> or \<open>random\<close> query
  parameter; the quoted search terms in front of it contain no \<open>&\<close>.
\<close>

theorem record_urls_share_one_seed:
  "(\<forall>r. get_product_image db product_name image_type = Inr r \<longrightarrow>
      (\<exists>seed q0 q1. of_char CHR ''&'' \<notin> set q0 \<and> of_char CHR ''&'' \<notin> set q1 \<and>
         primary r =
           base_unsplash_url @ lit ''/800x800/?'' @ q0 @ lit ''&sig='' @ decimal seed \<and>
         secondary r =
           base_unsplash_url @ lit ''/800x800/?'' @ q1 @ lit ''&sig='' @ decimal seed \<and>
         fallback r = base_picsum_url @ lit ''/800/800?random='' @ decimal seed)) \<and>
   (\<forall>r. get_hero_banner db collection = Inr r \<longrightarrow>
      (\<exists>seed q. of_char CHR ''&'' \<notin> set q \<and>
         primary r =
           base_unsplash_url @ lit ''/1920x600/?'' @ q @ lit ''&sig='' @ decimal seed \<and>
         secondary r =
           base_unsplash_url @ lit ''/1920x600/?luxury+timepiece&sig='' @ decimal seed \<and>
         fallback r = base_picsum_url @ lit ''/1920/600?random='' @ decimal seed)) \<and>
   (\<forall>assets section recs r.
      get_seiko_assets db section_count = Inr assets \<and>
      (section, recs) \<in> set assets \<and> r \<in> set recs \<longrightarrow>
      (\<exists>seed qk qf. of_char CHR ''&'' \<notin> set qk \<and> of_char CHR ''&'' \<notin> set qf \<and>
         primary r =
           base_unsplash_url @ lit ''/1200x800/?'' @ qk @ lit ''&sig='' @ decimal seed \<and>
         secondary r =
           base_unsplash_url @ lit ''/1200x800/?'' @ qf @ lit ''&sig='' @ decimal seed \<and>
         fallback r = base_picsum_url @ lit ''/1200/800?random='' @ decimal seed))"
proof (intro conjI allI impI)
  fix r assume "get_product_image db product_name image_type = Inr r"
  from get_product_image_Inr [OF this refl] obtain seed q0 q1 where
    q: "quote (product_search_terms (py_replace CHR '' '' CHR ''+'' (py_lower db product_name))
          image_type ! 0) = Inr q0"
       "quote (product_search_terms (py_replace CHR '' '' CHR ''+'' (py_lower db product_name))
          image_type ! 1) = Inr q1"
    and r: "r = \<lparr>primary = base_unsplash_url @ lit ''/800x800/?'' @ q0 @ lit ''&sig='' @ decimal seed,
           secondary = base_unsplash_url @ lit ''/800x800/?'' @ q1 @ lit ''&sig='' @ decimal seed,
           fallback = base_picsum_url @ lit ''/800/800?random='' @ decimal seed,
           alt = product_name @ lit '' - Professional watch photography'',
           title = product_name\<rparr>"
    by blast
  from q have "of_char CHR ''&'' \<notin> set q0" "of_char CHR ''&'' \<notin> set q1"
    using quote_no_ampersand by blast+
  with r show "\<exists>seed q0 q1. of_char CHR ''&'' \<notin> set q0 \<and> of_char CHR ''&'' \<notin> set q1 \<and>
         primary r =
           base_unsplash_url @ lit ''/800x800/?'' @ q0 @ lit ''&sig='' @ decimal seed \<and>
         secondary r =
           base_unsplash_url @ lit ''/800x800/?'' @ q1 @ lit ''&sig='' @ decimal seed \<and>
         fallback r = base_picsum_url @ lit ''/800/800?random='' @ decimal seed"
    by (intro exI [of _ seed] exI [of _ q0] exI [of _ q1]) simp
next
  fix r assume "get_hero_banner db collection = Inr r"
  from get_hero_banner_Inr [OF this] obtain seed q where
    q: "quote (hero_search_term collection) = Inr q"
    and r: "r = \<lparr>primary = base_unsplash_url @ lit ''/1920x600/?'' @ q @ lit ''&sig='' @ decimal seed,
           secondary = base_unsplash_url @ lit ''/1920x600/?luxury+timepiece&sig=''
               @ decimal seed,
           fallback = base_picsum_url @ lit ''/1920/600?random='' @ decimal seed,
           alt = lit ''Seiko '' @ py_title db collection
               @ lit '' Collection - Premium timepieces'',
           title = lit ''Seiko '' @ py_title db collection @ lit '' Collection''\<rparr>"
    by blast
  from q have "of_char CHR ''&'' \<notin> set q"
    by (rule quote_no_ampersand)
  with r show "\<exists>seed q. of_char CHR ''&'' \<notin> set q \<and>
         primary r =
           base_unsplash_url @ lit ''/1920x600/?'' @ q @ lit ''&sig='' @ decimal seed \<and>
         secondary r =
           base_unsplash_url @ lit ''/1920x600/?luxury+timepiece&sig='' @ decimal seed \<and>
         fallback r = base_picsum_url @ lit ''/1920/600?random='' @ decimal seed"
    by (intro exI [of _ seed] exI [of _ q]) simp
next
  fix assets sec recs r
  assume h: "get_seiko_assets db section_count = Inr assets \<and>
      (sec, recs) \<in> set assets \<and> r \<in> set recs"
  then obtain kws i where "section_image db sec kws i = Inr r"
    using get_seiko_assets_member [of db section_count assets sec recs r] by blast
  from section_image_Inr [OF this] obtain fallbacks seed qk qf where
    q: "quote (kws ! (i mod length kws)) = Inr qk"
       "quote (fallbacks ! (i mod length fallbacks)) = Inr qf"
    and r: "primary r =
           base_unsplash_url @ lit ''/1200x800/?'' @ qk @ lit ''&sig='' @ decimal seed"
      "secondary r =
           base_unsplash_url @ lit ''/1200x800/?'' @ qf @ lit ''&sig='' @ decimal seed"
      "fallback r = base_picsum_url @ lit ''/1200/800?random='' @ decimal seed"
    by auto
  from q have "of_char CHR ''&'' \<notin> set qk" "of_char CHR ''&'' \<notin> set qf"
    using quote_no_ampersand by blast+
  with r show "\<exists>seed qk qf. of_char CHR ''&'' \<notin> set qk \<and> of_char CHR ''&'' \<notin> set qf \<and>
         primary r =
           base_unsplash_url @ lit ''/1200x800/?'' @ qk @ lit ''&sig='' @ decimal seed \<and>
         secondary r =
           base_unsplash_url @ lit ''/1200x800/?'' @ qf @ lit ''&sig='' @ decimal seed \<and>
         fallback r = base_picsum_url @ lit ''/1200/800?random='' @ decimal seed"
    by (intro exI [of _ seed] exI [of _ qk] exI [of _ qf]) simp
qed

theorem record_urls_share_one_seed_witness:
  "\<exists>r seed q0 q1.
      get_product_image uncased_db (lit ''Seiko 5 Sports'') (lit ''main'') = Inr r \<and>
      primary r = base_unsplash_url @ lit ''/800x800/?'' @ q0 @ lit ''&sig='' @ decimal seed \<and>
      secondary r = base_unsplash_url @ lit ''/800x800/?'' @ q1 @ lit ''&sig='' @ decimal seed \<and>
      fallback r = base_picsum_url @ lit ''/800/800?random='' @ decimal seed"
proof -
  have "is_ascii (lit ''Seiko 5 Sports'')"
    by (simp add: is_ascii_def lit_def)
  then have "encodable (py_lower uncased_db (lit ''Seiko 5 Sports''))"
    by (simp add: py_lower_def encodable_def is_surrogate_def lit_def ascii_lower_def)
  then obtain r where
    r: "get_product_image uncased_db (lit ''Seiko 5 Sports'') (lit ''main'') = Inr r"
    using get_product_image_total [of uncased_db "lit ''Seiko 5 Sports''" "lit ''main''"]
    by auto
  with record_urls_share_one_seed
    [of uncased_db "lit ''Seiko 5 Sports''" "lit ''main''" "[]" 1]
  show ?thesis by blast
qed

text \<open>
  C2. Two calls of \<open>get_product_image\<close> with the same product name and image type give the
  same result, whatever the interpreter's case mapping when the name is ASCII. The result
  is fixed by the arguments: with \<open>clean_name\<close> the lower-cased name with \<open>+\<close> for
  blanks, when the key \<open>{clean_name}_{image_type}\<close> encodes to bytes \<open>bs\<close>, each call
  returns the record whose three URLs end in the seed
  \<open>big_endian (take 4 (md5 bs)) mod 10000\<close> and whose search terms are the quoted terms of
  the image type; when the key does not encode, each call raises \<open>UnicodeEncodeError\<close>.
\<close>

theorem get_product_image_deterministic:
  assumes "product_name1 = product_name2" and "image_type1 = image_type2"
    and "db1 = db2 \<or> is_ascii product_name1"
    and "clean_name = py_replace CHR '' '' CHR ''+'' (py_lower db1 product_name1)"
  shows "get_product_image db1 product_name1 image_type1
       = get_product_image db2 product_name2 image_type2 \<and>
     (\<forall>bs. encode (clean_name @ lit ''_'' @ image_type1) = Inr bs \<longrightarrow>
        (\<exists>q0 q1.
           quote (product_search_terms clean_name image_type1 ! 0) = Inr q0 \<and>
           quote (product_search_terms clean_name image_type1 ! 1) = Inr q1 \<and>
           get_product_image db2 product_name2 image_type2 =
             Inr \<lparr>primary = base_unsplash_url @ lit ''/800x800/?'' @ q0 @ lit ''&sig=''
                      @ decimal (big_endian (take 4 (md5 bs)) mod 10000),
                  secondary = base_unsplash_url @ lit ''/800x800/?'' @ q1 @ lit ''&sig=''
                      @ decimal (big_endian (take 4 (md5 bs)) mod 10000),
                  fallback = base_picsum_url @ lit ''/800/800?random=''
                      @ decimal (big_endian (take 4 (md5 bs)) mod 10000),
                  alt = product_name1 @ lit '' - Professional watch photography'',
                  title = product_name1\<rparr>)) \<and>
     (\<forall>e. encode (clean_name @ lit ''_'' @ image_type1) = Inl e \<longrightarrow>
        get_product_image db2 product_name2 image_type2 = Inl UnicodeEncodeError)"
proof (intro conjI allI impI)
  from assms(3) have "py_lower db1 product_name1 = py_lower db2 product_name1"
    by (auto simp: py_lower_def)
  with assms(1,2) show same: "get_product_image db1 product_name1 image_type1
       = get_product_image db2 product_name2 image_type2"
    by (simp add: get_product_image_def)
  {
    fix bs assume bs: "encode (clean_name @ lit ''_'' @ image_type1) = Inr bs"
    then have "encodable (clean_name @ lit ''_'' @ image_type1)"
      using encode_Inr_iff by blast
    then have "encodable (py_lower db1 product_name1)" and "encodable image_type1"
      by (simp_all add: assms(4))
    then obtain r where r: "get_product_image db1 product_name1 image_type1 = Inr r"
      using get_product_image_total by blast
    from get_product_image_Inr [OF r assms(4)] obtain seed q0 q1 where
      seed: "derive_seed (clean_name @ lit ''_'' @ image_type1) = Inr seed"
      and q: "quote (product_search_terms clean_name image_type1 ! 0) = Inr q0"
        "quote (product_search_terms clean_name image_type1 ! 1) = Inr q1"
      and rec: "r = \<lparr>primary = base_unsplash_url @ lit ''/800x800/?'' @ q0 @ lit ''&sig=''
                      @ decimal seed,
                  secondary = base_unsplash_url @ lit ''/800x800/?'' @ q1 @ lit ''&sig=''
                      @ decimal seed,
                  fallback = base_picsum_url @ lit ''/800/800?random='' @ decimal seed,
                  alt = product_name1 @ lit '' - Professional watch photography'',
                  title = product_name1\<rparr>"
      by blast
    from seed derive_seed_encode [OF bs]
    have "seed = big_endian (take 4 (md5 bs)) mod 10000"
      by simp
    with q rec r same show "\<exists>q0 q1.
           quote (product_search_terms clean_name image_type1 ! 0) = Inr q0 \<and>
           quote (product_search_terms clean_name image_type1 ! 1) = Inr q1 \<and>
           get_product_image db2 product_name2 image_type2 =
             Inr \<lparr>primary = base_unsplash_url @ lit ''/800x800/?'' @ q0 @ lit ''&sig=''
                      @ decimal (big_endian (take 4 (md5 bs)) mod 10000),
                  secondary = base_unsplash_url @ lit ''/800x800/?'' @ q1 @ lit ''&sig=''
                      @ decimal (big_endian (take 4 (md5 bs)) mod 10000),
                  fallback = base_picsum_url @ lit ''/800/800?random=''
                      @ decimal (big_endian (take 4 (md5 bs)) mod 10000),
                  alt = product_name1 @ lit '' - Professional watch photography'',
                  title = product_name1\<rparr>"
      by simp
  }
  {
    fix e assume "encode (clean_name @ lit ''_'' @ image_type1) = Inl e"
    then have "\<not> encodable (clean_name @ lit ''_'' @ image_type1)"
      using encode_encodable by fastforce
    then have "\<not> (encodable (py_lower db1 product_name1) \<and> encodable image_type1)"
      by (simp add: assms(4))
    then have "get_product_image db1 product_name1 image_type1 = Inl UnicodeEncodeError"
      by (rule get_product_image_raises)
    with same show "get_product_image db2 product_name2 image_type2 = Inl UnicodeEncodeError"
      by simp
  }
qed

theorem get_product_image_deterministic_witness:
  "get_product_image uncased_db (lit ''Seiko 5 Sports'') (lit ''main'') =
     Inr \<lparr>primary =
            lit ''https://source.unsplash.com/800x800/?seiko%2Bseiko%2B5%2Bsports&sig=6335'',
          secondary =
            lit ''https://source.unsplash.com/800x800/?seiko%2B5%2Bsports%2Bwatch&sig=6335'',
          fallback = lit ''https://picsum.photos/800/800?random=6335'',
          alt = lit ''Seiko 5 Sports - Professional watch photography'',
          title = lit ''Seiko 5 Sports''\<rparr> \<and>
   get_product_image \<lparr>db_lower = rev, db_title = rev\<rparr> (lit ''Seiko 5 Sports'') (lit ''main'')
     = get_product_image uncased_db (lit ''Seiko 5 Sports'') (lit ''main'')"
proof -
  have ascii: "is_ascii (lit ''Seiko 5 Sports'')"
    by (simp add: is_ascii_def lit_def)
  have clean: "lit ''seiko+5+sports''
      = py_replace CHR '' '' CHR ''+'' (py_lower uncased_db (lit ''Seiko 5 Sports''))"
    by (simp add: py_lower_def is_ascii_def py_replace_def lit_def ascii_lower_def)
  note inst = get_product_image_deterministic
      [of "lit ''Seiko 5 Sports''" "lit ''Seiko 5 Sports''" "lit ''main''" "lit ''main''"
          uncased_db "\<lparr>db_lower = rev, db_title = rev\<rparr>" "lit ''seiko+5+sports''",
       OF refl refl disjI2 [OF ascii] clean]
  have key: "lit ''seiko+5+sports'' @ lit ''_'' @ lit ''main'' = lit ''seiko+5+sports_main''"
    by (simp add: lit_append [symmetric])
  have terms: "product_search_terms (lit ''seiko+5+sports'') (lit ''main'')
      = [lit ''seiko+seiko+5+sports'', lit ''seiko+5+sports+watch'', lit ''luxury+watch'']"
    by (simp add: product_search_terms_def lit_append [symmetric])
  have quotes: "quote (lit ''seiko+seiko+5+sports'') = Inr (lit ''seiko%2Bseiko%2B5%2Bsports'')"
    "quote (lit ''seiko+5+sports+watch'') = Inr (lit ''seiko%2B5%2Bsports%2Bwatch'')"
    by (simp_all add: quote_def lit_def utf8_char_def quote_byte_def always_safe_def
        hex_upper_def)
  have seed: "big_endian (take 4 (md5
      [115, 101, 105, 107, 111, 43, 53, 43, 115, 112, 111, 114, 116, 115, 95, 109, 97, 105,
       110])) mod 10000 = 6335"
    by (simp add: sports_key_digest big_endian_def)
  have dec: "decimal 6335 = lit ''6335''"
    by (simp add: decimal.simps lit_def)
  from inst have same: "get_product_image uncased_db (lit ''Seiko 5 Sports'') (lit ''main'')
      = get_product_image \<lparr>db_lower = rev, db_title = rev\<rparr> (lit ''Seiko 5 Sports'')
          (lit ''main'')"
    by blast
  from inst sports_key_bytes obtain q0 q1 where
    q: "quote (product_search_terms (lit ''seiko+5+sports'') (lit ''main'') ! 0) = Inr q0"
       "quote (product_search_terms (lit ''seiko+5+sports'') (lit ''main'') ! 1) = Inr q1"
    and r: "get_product_image \<lparr>db_lower = rev, db_title = rev\<rparr> (lit ''Seiko 5 Sports'')
          (lit ''main'') =
        Inr \<lparr>primary = base_unsplash_url @ lit ''/800x800/?'' @ q0 @ lit ''&sig=''
                 @ decimal 6335,
             secondary = base_unsplash_url @ lit ''/800x800/?'' @ q1 @ lit ''&sig=''
                 @ decimal 6335,
             fallback = base_picsum_url @ lit ''/800/800?random='' @ decimal 6335,
             alt = lit ''Seiko 5 Sports'' @ lit '' - Professional watch photography'',
             title = lit ''Seiko 5 Sports''\<rparr>"
    unfolding key seed [symmetric] by blast
  from q have "q0 = lit ''seiko%2Bseiko%2B5%2Bsports''" "q1 = lit ''seiko%2B5%2Bsports%2Bwatch''"
    by (simp_all add: terms quotes)
  with r same show ?thesis
    by (simp add: dec base_unsplash_url_def base_picsum_url_def lit_append [symmetric])
qed

text \<open>
  C5. For the product name \<open>Seiko Prospex Solar Diver\<close> and image type \<open>detail\<close> the
  normalized name is \<open>seiko+prospex+solar+diver\<close>, the first search term is that name
  followed by \<open>+detail\<close>, and the primary URL contains the URL-escaped form of the term,
  in front of the seed 5448 of the key \<open>seiko+prospex+solar+diver_detail\<close>.
\<close>

theorem product_image_detail_example:
  "py_replace CHR '' '' CHR ''+'' (py_lower db (lit ''Seiko Prospex Solar Diver''))
     = lit ''seiko+prospex+solar+diver'' \<and>
   product_search_terms (lit ''seiko+prospex+solar+diver'') (lit ''detail'') ! 0
     = lit ''seiko+prospex+solar+diver'' @ lit ''+detail'' \<and>
   quote (lit ''seiko+prospex+solar+diver+detail'')
     = Inr (lit ''seiko%2Bprospex%2Bsolar%2Bdiver%2Bdetail'') \<and>
   derive_seed (lit ''seiko+prospex+solar+diver_detail'') = Inr 5448 \<and>
   get_product_image db (lit ''Seiko Prospex Solar Diver'') (lit ''detail'') =
     Inr \<lparr>primary = lit ''https://source.unsplash.com/800x800/?''
              @ lit ''seiko%2Bprospex%2Bsolar%2Bdiver%2Bdetail'' @ lit ''&sig=5448'',
          secondary = lit ''https://source.unsplash.com/800x800/?watch%2Bmechanism&sig=5448'',
          fallback = lit ''https://picsum.photos/800/800?random=5448'',
          alt = lit ''Seiko Prospex Solar Diver - Professional watch photography'',
          title = lit ''Seiko Prospex Solar Diver''\<rparr>"
proof -
  have clean: "py_replace CHR '' '' CHR ''+'' (py_lower db (lit ''Seiko Prospex Solar Diver''))
      = lit ''seiko+prospex+solar+diver''"
    by (simp add: py_lower_ascii_lit clean_name_example)
  have terms: "product_search_terms (lit ''seiko+prospex+solar+diver'') (lit ''detail'')
      = [lit ''seiko+prospex+solar+diver'' @ lit ''+detail'', lit ''watch+mechanism'',
         lit ''watch+face'']"
    by (simp add: product_search_terms_def)
  have key: "lit ''seiko+prospex+solar+diver'' @ lit ''_'' @ lit ''detail''
      = lit ''seiko+prospex+solar+diver_detail''"
    by (simp add: lit_append [symmetric])
  have term0: "lit ''seiko+prospex+solar+diver'' @ lit ''+detail''
      = lit ''seiko+prospex+solar+diver+detail''"
    by (simp add: lit_append [symmetric])
  have "get_product_image db (lit ''Seiko Prospex Solar Diver'') (lit ''detail'') =
     Inr \<lparr>primary = lit ''https://source.unsplash.com/800x800/?''
              @ lit ''seiko%2Bprospex%2Bsolar%2Bdiver%2Bdetail'' @ lit ''&sig=5448'',
          secondary = lit ''https://source.unsplash.com/800x800/?watch%2Bmechanism&sig=5448'',
          fallback = lit ''https://picsum.photos/800/800?random=5448'',
          alt = lit ''Seiko Prospex Solar Diver - Professional watch photography'',
          title = lit ''Seiko Prospex Solar Diver''\<rparr>"
    unfolding get_product_image_def Let_def clean terms key
    by (simp add: detail_key_seed term0 quote_example_detail quote_generic_terms
        decimal_examples base_unsplash_url_def base_picsum_url_def lit_append [symmetric])
  with clean terms show ?thesis
    by (simp add: quote_example_detail detail_key_seed)
qed

text \<open>
  C1, as stated: the construction operations return for every input string. This fails:
  a string with a lone surrogate code point cannot be encoded, and \<open>get_hero_banner\<close> and
  \<open>get_product_image\<close> raise \<open>UnicodeEncodeError\<close> on it.
\<close>

theorem construction_raises_on_surrogate:
  "get_hero_banner uncased_db [0xD800] = Inl UnicodeEncodeError \<and>
   get_product_image uncased_db [0xD800] (lit ''main'') = Inl UnicodeEncodeError"
proof -
  have "py_lower uncased_db [0xD800] = [0xD800]"
    by (simp add: py_lower_def is_ascii_def uncased_db_def)
  then have "\<not> (encodable (py_lower uncased_db [0xD800]) \<and> encodable (lit ''main''))"
    using not_encodable_surrogate by simp
  then show ?thesis
    using get_hero_banner_raises [OF not_encodable_surrogate]
    by (simp add: get_product_image_raises)
qed

text \<open>
  C1, amended. \<open>get_seiko_assets\<close> returns for every count, with all six sections;
  \<open>get_product_image\<close> returns whenever the lower-cased product name and the image type
  contain no surrogate code point, \<open>get_hero_banner\<close> whenever the collection key contains
  none. A returned record has the five string fields.
\<close>

theorem construction_returns_on_encodable_input:
  "(\<exists>assets. get_seiko_assets db section_count = Inr assets \<and>
      map fst assets = map fst SEIKO_WATCH_CATEGORIES) \<and>
   (encodable (py_lower db product_name) \<and> encodable image_type \<longrightarrow>
      (\<exists>p s f a t. get_product_image db product_name image_type =
         Inr \<lparr>primary = p, secondary = s, fallback = f, alt = a, title = t\<rparr>)) \<and>
   (encodable collection \<longrightarrow>
      (\<exists>p s f a t. get_hero_banner db collection =
         Inr \<lparr>primary = p, secondary = s, fallback = f, alt = a, title = t\<rparr>))"
proof (intro conjI impI)
  obtain assets where "get_seiko_assets db section_count = Inr assets"
    using get_seiko_assets_total by blast
  then show "\<exists>assets. get_seiko_assets db section_count = Inr assets \<and>
      map fst assets = map fst SEIKO_WATCH_CATEGORIES"
    using get_seiko_assets_keys by blast
next
  assume "encodable (py_lower db product_name) \<and> encodable image_type"
  then obtain r where "get_product_image db product_name image_type = Inr r"
    using get_product_image_total by blast
  then show "\<exists>p s f a t. get_product_image db product_name image_type =
         Inr \<lparr>primary = p, secondary = s, fallback = f, alt = a, title = t\<rparr>"
    by (cases r) auto
next
  assume "encodable collection"
  then obtain r where "get_hero_banner db collection = Inr r"
    using get_hero_banner_total by blast
  then show "\<exists>p s f a t. get_hero_banner db collection =
         Inr \<lparr>primary = p, secondary = s, fallback = f, alt = a, title = t\<rparr>"
    by (cases r) auto
qed

theorem construction_returns_on_encodable_input_witness:
  "(\<exists>assets. get_seiko_assets uncased_db 8 = Inr assets) \<and>
   (\<exists>r. get_product_image uncased_db (lit ''Seiko 5 Sports'') (lit ''main'') = Inr r) \<and>
   (\<exists>r. get_hero_banner uncased_db (lit ''luxury'') = Inr r)"
proof -
  have "py_lower uncased_db (lit ''Seiko 5 Sports'') = lit ''seiko 5 sports''"
    by (simp add: py_lower_def is_ascii_def lit_def ascii_lower_def)
  then have "encodable (py_lower uncased_db (lit ''Seiko 5 Sports'')) \<and> encodable (lit ''main'')"
    by simp
  moreover have "encodable (lit ''luxury'')"
    by simp
  ultimately show ?thesis
    using construction_returns_on_encodable_input
      [of uncased_db 8 "lit ''Seiko 5 Sports''" "lit ''main''" "lit ''luxury''"]
    by blast
qed

text \<open>
  C7, as stated: every unknown image type or collection key gives a record without error.
  This fails for an image type that cannot be encoded: it is none of \<open>main\<close>, \<open>detail\<close>,
  \<open>lifestyle\<close>, and the call raises.
\<close>

theorem unknown_image_type_raises_on_surrogate:
  "[0xD800] \<notin> {lit ''main'', lit ''detail'', lit ''lifestyle''} \<and>
   get_product_image uncased_db (lit ''Grand Seiko SBGA211'') [0xD800]
     = Inl UnicodeEncodeError"
proof -
  have "[0xD800] \<notin> {lit ''main'', lit ''detail'', lit ''lifestyle''}"
    by (simp add: lit_def)
  moreover have "\<not> (encodable (py_lower uncased_db (lit ''Grand Seiko SBGA211''))
      \<and> encodable [0xD800])"
    using not_encodable_surrogate by simp
  ultimately show ?thesis
    by (simp add: get_product_image_raises)
qed

text \<open>
  C7, amended. For an image type other than \<open>main\<close>, \<open>detail\<close> and \<open>lifestyle\<close>, when the
  lower-cased product name and the image type contain no surrogate code point,
  \<open>get_product_image\<close> returns a record whose primary and secondary search terms are
  \<open>seiko+watch\<close> and \<open>luxury+timepiece\<close>. For a collection key other than \<open>luxury\<close>,
  \<open>sport\<close>, \<open>dress\<close> and \<open>solar\<close> that contains no surrogate code point,
  \<open>get_hero_banner\<close> returns a record whose primary search term is \<open>seiko+watch+luxury\<close>.
\<close>

theorem unknown_keys_use_generic_terms:
  "(image_type \<notin> {lit ''main'', lit ''detail'', lit ''lifestyle''} \<and>
    encodable (py_lower db product_name) \<and> encodable image_type \<longrightarrow>
      (\<exists>r seed.
         get_product_image db product_name image_type = Inr r \<and>
         derive_seed (py_replace CHR '' '' CHR ''+'' (py_lower db product_name)
            @ lit ''_'' @ image_type) = Inr seed \<and>
         product_search_terms (py_replace CHR '' '' CHR ''+'' (py_lower db product_name))
            image_type = [lit ''seiko+watch'', lit ''luxury+timepiece''] \<and>
         primary r =
           base_unsplash_url @ lit ''/800x800/?seiko%2Bwatch&sig='' @ decimal seed \<and>
         secondary r =
           base_unsplash_url @ lit ''/800x800/?luxury%2Btimepiece&sig='' @ decimal seed)) \<and>
   (collection \<notin> {lit ''luxury'', lit ''sport'', lit ''dress'', lit ''solar''} \<and>
    encodable collection \<longrightarrow>
      (\<exists>r seed.
         get_hero_banner db collection = Inr r \<and>
         derive_seed (lit ''hero_'' @ collection) = Inr seed \<and>
         hero_search_term collection = lit ''seiko+watch+luxury'' \<and>
         primary r =
           base_unsplash_url @ lit ''/1920x600/?seiko%2Bwatch%2Bluxury&sig=''
             @ decimal seed))"
proof (intro conjI impI)
  assume h: "image_type \<notin> {lit ''main'', lit ''detail'', lit ''lifestyle''} \<and>
    encodable (py_lower db product_name) \<and> encodable image_type"
  then obtain r where r: "get_product_image db product_name image_type = Inr r"
    using get_product_image_total by blast
  from h have terms:
    "product_search_terms (py_replace CHR '' '' CHR ''+'' (py_lower db product_name))
       image_type = [lit ''seiko+watch'', lit ''luxury+timepiece'']"
    by (simp add: product_search_terms_def)
  from get_product_image_Inr [OF r refl] obtain seed q0 q1 where
    seed: "derive_seed (py_replace CHR '' '' CHR ''+'' (py_lower db product_name)
            @ lit ''_'' @ image_type) = Inr seed"
    and q: "quote (product_search_terms (py_replace CHR '' '' CHR ''+'' (py_lower db product_name))
          image_type ! 0) = Inr q0"
       "quote (product_search_terms (py_replace CHR '' '' CHR ''+'' (py_lower db product_name))
          image_type ! 1) = Inr q1"
    and pr: "primary r =
        base_unsplash_url @ lit ''/800x800/?'' @ q0 @ lit ''&sig='' @ decimal seed"
      "secondary r =
        base_unsplash_url @ lit ''/800x800/?'' @ q1 @ lit ''&sig='' @ decimal seed"
    by auto
  from q have "q0 = lit ''seiko%2Bwatch''" "q1 = lit ''luxury%2Btimepiece''"
    by (simp_all add: terms quote_generic_terms)
  with pr have "primary r =
           base_unsplash_url @ lit ''/800x800/?seiko%2Bwatch&sig='' @ decimal seed"
    and "secondary r =
           base_unsplash_url @ lit ''/800x800/?luxury%2Btimepiece&sig='' @ decimal seed"
    by (simp_all add: lit_def)
  with r seed terms show "\<exists>r seed.
         get_product_image db product_name image_type = Inr r \<and>
         derive_seed (py_replace CHR '' '' CHR ''+'' (py_lower db product_name)
            @ lit ''_'' @ image_type) = Inr seed \<and>
         product_search_terms (py_replace CHR '' '' CHR ''+'' (py_lower db product_name))
            image_type = [lit ''seiko+watch'', lit ''luxury+timepiece''] \<and>
         primary r =
           base_unsplash_url @ lit ''/800x800/?seiko%2Bwatch&sig='' @ decimal seed \<and>
         secondary r =
           base_unsplash_url @ lit ''/800x800/?luxury%2Btimepiece&sig='' @ decimal seed"
    by blast
next
  assume h: "collection \<notin> {lit ''luxury'', lit ''sport'', lit ''dress'', lit ''solar''} \<and>
    encodable collection"
  then obtain r where r: "get_hero_banner db collection = Inr r"
    using get_hero_banner_total by blast
  from h have hterm: "hero_search_term collection = lit ''seiko+watch+luxury''"
    by (simp add: hero_search_term_def hero_search_terms_def)
  from get_hero_banner_Inr [OF r] obtain seed q where
    seed: "derive_seed (lit ''hero_'' @ collection) = Inr seed"
    and q: "quote (hero_search_term collection) = Inr q"
    and pr: "primary r =
        base_unsplash_url @ lit ''/1920x600/?'' @ q @ lit ''&sig='' @ decimal seed"
    by auto
  from q have "q = lit ''seiko%2Bwatch%2Bluxury''"
    by (simp add: hterm quote_generic_terms)
  with pr have "primary r =
      base_unsplash_url @ lit ''/1920x600/?seiko%2Bwatch%2Bluxury&sig='' @ decimal seed"
    by (simp add: lit_def)
  with r seed hterm show "\<exists>r seed.
         get_hero_banner db collection = Inr r \<and>
         derive_seed (lit ''hero_'' @ collection) = Inr seed \<and>
         hero_search_term collection = lit ''seiko+watch+luxury'' \<and>
         primary r =
           base_unsplash_url @ lit ''/1920x600/?seiko%2Bwatch%2Bluxury&sig=''
             @ decimal seed"
    by blast
qed

theorem unknown_keys_use_generic_terms_witness:
  "(\<exists>r seed.
      get_product_image uncased_db (lit ''Grand Seiko SBGA211'') (lit ''panorama'') = Inr r \<and>
      primary r = base_unsplash_url @ lit ''/800x800/?seiko%2Bwatch&sig='' @ decimal seed \<and>
      secondary r =
        base_unsplash_url @ lit ''/800x800/?luxury%2Btimepiece&sig='' @ decimal seed) \<and>
   (\<exists>r seed.
      get_hero_banner uncased_db (lit ''unknown-collection'') = Inr r \<and>
      primary r =
        base_unsplash_url @ lit ''/1920x600/?seiko%2Bwatch%2Bluxury&sig='' @ decimal seed)"
proof -
  have "py_lower uncased_db (lit ''Grand Seiko SBGA211'') = lit ''grand seiko sbga211''"
    by (simp add: py_lower_def is_ascii_def lit_def ascii_lower_def)
  then have "lit ''panorama'' \<notin> {lit ''main'', lit ''detail'', lit ''lifestyle''} \<and>
    encodable (py_lower uncased_db (lit ''Grand Seiko SBGA211'')) \<and>
    encodable (lit ''panorama'')"
    by simp
  moreover have "lit ''unknown-collection''
      \<notin> {lit ''luxury'', lit ''sport'', lit ''dress'', lit ''solar''} \<and>
    encodable (lit ''unknown-collection'')"
    by simp
  ultimately show ?thesis
    using unknown_keys_use_generic_terms
      [of "lit ''panorama''" uncased_db "lit ''Grand Seiko SBGA211''" "lit ''unknown-collection''"]
    by blast
qed

end
